theory Spec2Isabelle
  imports Complex_Main
begin

unbundle bit_operations_syntax

section \<open>Risk decision pipeline of the PFM backend\<close>

text \<open>
  A shallow embedding of \<^verbatim>\<open>app/risk_engine.py\<close>, \<^verbatim>\<open>app/threat_intel.py\<close>,
  \<^verbatim>\<open>app/anomaly_engine.py\<close> and of the scoring parts of \<^verbatim>\<open>app/main.py\<close>.

  Conventions of the embedding:
  \<^item> Python \<^verbatim>\<open>int\<close> is \<open>int\<close>; Python \<^verbatim>\<open>float\<close> is idealised as \<open>real\<close>
    (IEEE rounding, infinities and NaN are not modelled);
  \<^item> a naive \<^verbatim>\<open>datetime\<close> is the number of microseconds since a fixed epoch;
  \<^item> a \<^verbatim>\<open>dict\<close> that is only looked up is a map, one that is iterated is an
    association list in insertion order;
  \<^item> an exception is the \<open>Inl\<close> branch of a sum.
\<close>

subsection \<open>Login history rows\<close>

text \<open>\<^verbatim>\<open>models.LoginEvent\<close>, the columns the scorer reads.\<close>

record LoginEvent =
  ts :: int
  ip :: string
  device_hash :: "string option"
  success :: bool

subsection \<open>Threat intelligence (\<^verbatim>\<open>threat_intel.py\<close>)\<close>

datatype ti_flag = Ti_bad_ip | Ti_tor_exit | Ti_bad_asn | Ti_disposable_email | Ti_breached_cred

text \<open>The table \<^verbatim>\<open>TI_DEFAULT_SCORE_BUMPS\<close>.\<close>

fun TI_DEFAULT_SCORE_BUMPS :: "ti_flag \<Rightarrow> int" where
  "TI_DEFAULT_SCORE_BUMPS Ti_bad_ip = 30"
| "TI_DEFAULT_SCORE_BUMPS Ti_tor_exit = 25"
| "TI_DEFAULT_SCORE_BUMPS Ti_bad_asn = 15"
| "TI_DEFAULT_SCORE_BUMPS Ti_disposable_email = 15"
| "TI_DEFAULT_SCORE_BUMPS Ti_breached_cred = 0"

text \<open>The dictionary \<^verbatim>\<open>lookup_ip\<close> returns (labels left out).\<close>

record ti_ip_out =
  ti_bad_ip :: bool
  ti_tor_exit :: bool
  ti_bad_asn :: bool
  ti_asn :: "string option"
  ti_score_bump_suggest :: int

text \<open>\<^verbatim>\<open>_asn_for_ip\<close> is a placeholder that resolves nothing.\<close>

definition asn_for_ip :: "string \<Rightarrow> string option" where
  "asn_for_ip a = None"

text \<open>
  \<^verbatim>\<open>lookup_ip\<close>. The parsing of addresses and networks belongs to Python's
  \<^verbatim>\<open>ipaddress\<close>; the model takes its answers: whether the text is an address
  (\<open>is_addr\<close>) and which addresses the loaded bad and Tor networks contain.
\<close>

definition lookup_ip ::
  "bool \<Rightarrow> (string \<Rightarrow> bool) \<Rightarrow> string set \<Rightarrow> string set \<Rightarrow> string set \<Rightarrow> string \<Rightarrow> ti_ip_out" where
  "lookup_ip TI_ENABLE is_addr ip_bad ip_tor asn_bad a =
    (let out = \<lparr>ti_bad_ip = False, ti_tor_exit = False, ti_bad_asn = False, ti_asn = None,
                 ti_score_bump_suggest = 0\<rparr>
     in if \<not> TI_ENABLE then out
        else if \<not> is_addr a then out
        else
          let out1 = (if a \<in> ip_bad
                      then out\<lparr>ti_bad_ip := True,
                               ti_score_bump_suggest :=
                                 ti_score_bump_suggest out + TI_DEFAULT_SCORE_BUMPS Ti_bad_ip\<rparr>
                      else out);
              out2 = (if a \<in> ip_tor
                      then out1\<lparr>ti_tor_exit := True,
                                ti_score_bump_suggest :=
                                  ti_score_bump_suggest out1 + TI_DEFAULT_SCORE_BUMPS Ti_tor_exit\<rparr>
                      else out1)
          in (case asn_for_ip a of
                None \<Rightarrow> out2
              | Some asn \<Rightarrow>
                  (let out3 = out2\<lparr>ti_asn := Some asn\<rparr>
                   in if asn \<in> asn_bad
                      then out3\<lparr>ti_bad_asn := True,
                                ti_score_bump_suggest :=
                                  ti_score_bump_suggest out3 + TI_DEFAULT_SCORE_BUMPS Ti_bad_asn\<rparr>
                      else out3)))"

text \<open>
  The fusion step of \<^verbatim>\<open>login\<close> (main.py, "Applying TI bumps post-score"):
  \<^verbatim>\<open>extra\<close> starts at the bump the address lookup suggests, the e-mail and credential
  flags add theirs, and the total is capped at 100.
\<close>

definition ti_fusion :: "int \<Rightarrow> ti_ip_out \<Rightarrow> bool \<Rightarrow> bool \<Rightarrow> int" where
  "ti_fusion base_score ti_ip ti_disposable_email ti_breached_cred =
    (let extra = ti_score_bump_suggest ti_ip;
         extra1 = (if ti_disposable_email
                   then extra + TI_DEFAULT_SCORE_BUMPS Ti_disposable_email else extra);
         extra2 = (if ti_breached_cred
                   then extra1 + TI_DEFAULT_SCORE_BUMPS Ti_breached_cred else extra1)
     in min 100 (base_score + extra2))"

text \<open>The sum of the bumps of the flags that are set, as the specification words it.\<close>

definition applicable_bumps :: "ti_ip_out \<Rightarrow> bool \<Rightarrow> bool \<Rightarrow> int" where
  "applicable_bumps ti_ip ti_disposable_email ti_breached_cred =
    (if ti_bad_ip ti_ip then TI_DEFAULT_SCORE_BUMPS Ti_bad_ip else 0) +
    (if ti_tor_exit ti_ip then TI_DEFAULT_SCORE_BUMPS Ti_tor_exit else 0) +
    (if ti_bad_asn ti_ip then TI_DEFAULT_SCORE_BUMPS Ti_bad_asn else 0) +
    (if ti_disposable_email then TI_DEFAULT_SCORE_BUMPS Ti_disposable_email else 0) +
    (if ti_breached_cred then TI_DEFAULT_SCORE_BUMPS Ti_breached_cred else 0)"

subsection \<open>Decision policy (\<^verbatim>\<open>login\<close> in main.py)\<close>

datatype http_error = HTTPException int string

record Token =
  risk_score :: int
  step_up_required :: bool
  message :: string

text \<open>
  The end of \<^verbatim>\<open>login\<close>: \<open>recent\<close> is the stored history of the account (the
  candidate is not in it), \<open>total_score\<close> the fused score. The thresholds are the module
  globals \<^verbatim>\<open>RISK_HARD_DENY\<close> and \<^verbatim>\<open>RISK_STEP_UP_THRESHOLD\<close>.
\<close>

definition login_decision :: "int \<Rightarrow> int \<Rightarrow> LoginEvent list \<Rightarrow> int \<Rightarrow> http_error + Token" where
  "login_decision RISK_HARD_DENY RISK_STEP_UP_THRESHOLD recent total_score =
    (let had_success = list_ex success recent
     in if total_score \<ge> RISK_HARD_DENY \<and> had_success
        then Inl (HTTPException 403 ''Login blocked for security'')
        else
          let step_up = (total_score \<ge> RISK_STEP_UP_THRESHOLD)
          in Inr \<lparr>risk_score = total_score, step_up_required = step_up,
                  message = (if step_up then ''step-up suggested'' else ''ok'')\<rparr>)"

text \<open>The three states of the policy, read off the outcome of \<^verbatim>\<open>login\<close>.\<close>

datatype decision = ALLOW | STEP_UP | HARD_DENY

definition decision_of :: "http_error + Token \<Rightarrow> decision" where
  "decision_of r =
    (case r of Inl e \<Rightarrow> HARD_DENY
     | Inr t \<Rightarrow> if step_up_required t then STEP_UP else ALLOW)"

text \<open>
  The number of prior successful logins, as \<^verbatim>\<open>login_features\<close> counts it over the
  history without the candidate.
\<close>

definition prior_success_count :: "LoginEvent list \<Rightarrow> nat" where
  "prior_success_count recent = length (filter success recent)"

subsection \<open>Python numerics\<close>

text \<open>
  \<^verbatim>\<open>round(x)\<close> on a float: to the nearest integer, a tie to the even neighbour.
\<close>

definition py_round :: "real \<Rightarrow> int" where
  "py_round x =
    (let f = \<lfloor>x\<rfloor>; d = x - of_int f
     in if d < 1 / 2 then f
        else if d > 1 / 2 then f + 1
        else if even f then f else f + 1)"

text \<open>
  \<^verbatim>\<open>(b - a).days\<close> for two datetimes: a timedelta is normalised so that the days
  are the floor of the difference (a negative difference has negative days).
\<close>

definition timedelta_days :: "int \<Rightarrow> int" where
  "timedelta_days us = us div 86400000000"

text \<open>\<^verbatim>\<open>dt.hour\<close> of a datetime.\<close>

definition hour_of :: "int \<Rightarrow> nat" where
  "hour_of t = nat ((t div 3600000000) mod 24)"

text \<open>\<^verbatim>\<open>str(n)\<close> for a natural number: its decimal digits.\<close>

definition digit_char :: "nat \<Rightarrow> char" where
  "digit_char d = ''0123456789'' ! d"

fun str_nat :: "nat \<Rightarrow> string" where
  "str_nat n =
    (if n < 10 then [digit_char n]
     else str_nat (n div 10) @ [digit_char (n mod 10)])"

declare str_nat.simps [simp del]

subsection \<open>The risk engine (\<^verbatim>\<open>risk_engine.py\<close>)\<close>

record RiskConfig =
  weights :: "string \<rightharpoonup> real"
  scale :: real
  intercept :: real
  step_up_threshold :: int
  hard_deny_threshold :: int

text \<open>The module-level \<^verbatim>\<open>CONFIG = RiskConfig()\<close> with the dataclass defaults.\<close>

definition CONFIG :: RiskConfig where
  "CONFIG =
    \<lparr>weights = map_of
        [(''bias'', - 15 / 10), (''new_device'', 22 / 10), (''untrusted_device'', 16 / 10),
         (''ip_changed'', 6 / 10), (''new_city'', 1), (''rare_city'', 5 / 10),
         (''odd_hour'', 4 / 10), (''uncommon_hour'', 25 / 100), (''impossible_travel'', 24 / 10),
         (''consecutive_fails'', 65 / 100), (''no_prior_success_cap'', 0),
         (''device_age_decay'', 0)],
     scale = 1, intercept = 0, step_up_threshold = 60, hard_deny_threshold = 90\<rparr>"

text \<open>\<^verbatim>\<open>_sigmoid\<close>, with its split on the sign.\<close>

definition sigmoid_py :: "real \<Rightarrow> real" where
  "sigmoid_py x =
    (if x \<ge> 0 then (let z = exp (- x) in 1 / (1 + z))
     else (let z = exp x in z / (1 + z)))"

text \<open>The arguments of \<^verbatim>\<open>login_features\<close> (all keyword-only in the source).\<close>

record login_args =
  recent_rows :: "LoginEvent list"
  login_cities :: "string \<rightharpoonup> int"
  login_hours_hist :: "string \<rightharpoonup> int"
  device_trust :: "string \<rightharpoonup> bool"
  ip_city :: string
  is_private_ip :: bool
  dev_hash :: "string option"
  known_device :: bool
  ip_changed :: bool
  consecutive_fails :: int
  now :: int
  last_success_ts :: "int option"
  speed_kmh :: "real option"

text \<open>
  The notes \<^verbatim>\<open>login_features\<close> returns next to the features. The rounded speed and the
  ISO text of the last success are formatting only and are left out.
\<close>

record login_notes =
  note_city :: string
  note_prior_successes :: int
  note_hour_count :: "int option"

text \<open>\<^verbatim>\<open>d.get(k, default)\<close>.\<close>

definition dict_get :: "('k \<rightharpoonup> 'v) \<Rightarrow> 'k \<Rightarrow> 'v \<Rightarrow> 'v" where
  "dict_get d k dflt = (case d k of None \<Rightarrow> dflt | Some v \<Rightarrow> v)"

text \<open>Truth value of an optional string: \<^verbatim>\<open>None\<close> and the empty string are false.\<close>

definition truthy :: "string option \<Rightarrow> bool" where
  "truthy h = (case h of None \<Rightarrow> False | Some s \<Rightarrow> s \<noteq> [])"

text \<open>
  \<^verbatim>\<open>login_features\<close>. The feature dictionary is the association list in the order the
  source fills it; the last row of \<open>recent_rows\<close> is the candidate.
\<close>

definition login_features :: "login_args \<Rightarrow> (string \<times> real) list \<times> login_notes" where
  "login_features a =
    (let new_device = (if truthy (dev_hash a) \<and> \<not> known_device a then 1 else 0);
         trusted = dict_get (device_trust a)
                     (case dev_hash a of None \<Rightarrow> [] | Some h \<Rightarrow> h) False;
         untrusted_device = (if \<not> trusted then 1 else 0);
         ip_chg = (if ip_changed a then 1 else 0);
         dev_like = (is_private_ip a \<or> ip_city a = ''Unknown'');
         prior_successes = int (length (filter success (butlast (recent_rows a))));
         seen_city = dict_get (login_cities a) (ip_city a) 0;
         city_ok = (\<not> dev_like \<and> prior_successes \<ge> 1);
         new_city = (if city_ok then (if seen_city = 0 then 1 else 0) else 0);
         rare_city = (if city_ok then (if seen_city \<le> 2 \<and> seen_city > 0 then 1 else 0) else 0);
         hh = str_nat (hour_of (now a));
         hour_count = dict_get (login_hours_hist a) hh 0;
         hour_ok = (prior_successes \<ge> 3);
         odd_hour = (if hour_ok then (if hour_count = 0 then 1 else 0) else 0);
         uncommon_hour =
           (if hour_ok then (if hour_count \<le> 2 \<and> hour_count > 0 then 1 else 0) else 0);
         impossible_travel =
           (case speed_kmh a of None \<Rightarrow> 0 | Some v \<Rightarrow> if v > 750 then 1 else 0);
         fails = real_of_int (max (consecutive_fails a) 0)
     in ([(''new_device'', new_device), (''untrusted_device'', untrusted_device),
          (''ip_changed'', ip_chg), (''new_city'', new_city), (''rare_city'', rare_city),
          (''odd_hour'', odd_hour), (''uncommon_hour'', uncommon_hour),
          (''impossible_travel'', impossible_travel), (''consecutive_fails'', fails)],
         \<lparr>note_city = ip_city a, note_prior_successes = prior_successes,
          note_hour_count = (if hour_ok then Some hour_count else None)\<rparr>))"

text \<open>
  The loop of \<^verbatim>\<open>linear_score\<close> over \<^verbatim>\<open>features.items()\<close>, with the running sum
  \<open>s\<close>. The contribution trace (formatted text) is left out.
\<close>

fun linear_loop :: "(string \<rightharpoonup> real) \<Rightarrow> (string \<times> real) list \<Rightarrow> real \<Rightarrow> real" where
  "linear_loop ws [] s = s"
| "linear_loop ws ((k, v) # fs) s = linear_loop ws fs (s + dict_get ws k 0 * v)"

definition linear_score :: "(string \<times> real) list \<Rightarrow> RiskConfig \<Rightarrow> int" where
  "linear_score features cfg =
    (let s0 = dict_get (weights cfg) ''bias'' 0;
         s1 = linear_loop (weights cfg) features s0;
         s2 = scale cfg * s1 + intercept cfg;
         p = sigmoid_py s2
     in max 0 (min (py_round (p * 100)) 100))"

text \<open>\<^verbatim>\<open>apply_post_rules\<close>.\<close>

definition apply_post_rules :: "int \<Rightarrow> int \<Rightarrow> int option \<Rightarrow> int \<Rightarrow> int" where
  "apply_post_rules total0 prior_successes known_device_first_seen now_t =
    (let total1 = (if prior_successes = 0 then min total0 55 else total0);
         total2 =
           (case known_device_first_seen of
              None \<Rightarrow> total1
            | Some first_seen \<Rightarrow>
                (let days = max (timedelta_days (now_t - first_seen)) 0;
                     half_life = 30;
                     factor = (1 / 2) powr (real_of_int days / half_life)
                 in if days > 0 then py_round (real_of_int total1 * factor) else total1))
     in max 0 (min total2 100))"

text \<open>\<^verbatim>\<open>score_login\<close>: features, linear score, post rules.\<close>

definition score_login :: "RiskConfig \<Rightarrow> login_args \<Rightarrow> int option \<Rightarrow> int" where
  "score_login cfg a known_device_first_seen =
    (let (feats, notes) = login_features a;
         total0 = linear_score feats cfg
     in apply_post_rules total0 (note_prior_successes notes) known_device_first_seen (now a))"

subsection \<open>The calibrator and the scorer as the specification words them\<close>

text \<open>The logistic function.\<close>

definition sigmoid :: "real \<Rightarrow> real" where
  "sigmoid z = 1 / (1 + exp (- z))"

text \<open>The weighted sum over the features, a missing weight counting as 0.\<close>

definition weighted_sum :: "(string \<rightharpoonup> real) \<Rightarrow> (string \<times> real) list \<Rightarrow> real" where
  "weighted_sum ws fs = (\<Sum>(k, v)\<leftarrow>fs. (case ws k of None \<Rightarrow> 0 | Some w \<Rightarrow> w) * v)"

definition clamp_0_100 :: "int \<Rightarrow> int" where
  "clamp_0_100 x = (if x < 0 then 0 else if x > 100 then 100 else x)"

definition linear_score_spec :: "(string \<times> real) list \<Rightarrow> RiskConfig \<Rightarrow> int" where
  "linear_score_spec fs cfg =
    clamp_0_100 (py_round (100 * sigmoid (intercept cfg + scale cfg *
       ((case weights cfg ''bias'' of None \<Rightarrow> 0 | Some b \<Rightarrow> b) + weighted_sum (weights cfg) fs))))"

text \<open>
  The two corrections in sequence: the cold-start cap, then the half-life decay for a
  device first seen \<open>d\<close> days ago, then the clamp.
\<close>

definition cold_start_cap :: "int \<Rightarrow> int \<Rightarrow> int" where
  "cold_start_cap prior_successes s = (if prior_successes = 0 then min s 55 else s)"

definition device_age_decay :: "int option \<Rightarrow> int \<Rightarrow> int" where
  "device_age_decay days_since_first_seen s =
    (case days_since_first_seen of
       None \<Rightarrow> s
     | Some d \<Rightarrow> if d > 0 then py_round (real_of_int s * (1 / 2) powr (real_of_int d / 30)) else s)"

definition calibrate_spec :: "int \<Rightarrow> int \<Rightarrow> int option \<Rightarrow> int" where
  "calibrate_spec s prior_successes days_since_first_seen =
    clamp_0_100 (device_age_decay days_since_first_seen (cold_start_cap prior_successes s))"

subsection \<open>Eligibility of the city and hour features, as the specification words it\<close>

text \<open>
  City features: the address is not private and resolves to a city, and the history
  without the candidate holds a successful attempt. Hour features: it holds three.
\<close>

definition city_eligible :: "login_args \<Rightarrow> bool" where
  "city_eligible a \<longleftrightarrow>
     \<not> is_private_ip a \<and> ip_city a \<noteq> ''Unknown''
     \<and> 1 \<le> prior_success_count (butlast (recent_rows a))"

definition hour_eligible :: "login_args \<Rightarrow> bool" where
  "hour_eligible a \<longleftrightarrow> 3 \<le> prior_success_count (butlast (recent_rows a))"

definition city_count :: "login_args \<Rightarrow> int" where
  "city_count a = (case login_cities a (ip_city a) of None \<Rightarrow> 0 | Some c \<Rightarrow> c)"

definition hour_count_of :: "login_args \<Rightarrow> int" where
  "hour_count_of a =
     (case login_hours_hist a (str_nat (hour_of (now a))) of None \<Rightarrow> 0 | Some c \<Rightarrow> c)"

text \<open>The value of a named feature in the feature dictionary.\<close>

definition feature :: "(string \<times> real) list \<times> login_notes \<Rightarrow> string \<Rightarrow> real option" where
  "feature r k = map_of (fst r) k"

subsection \<open>Transaction statistics (\<^verbatim>\<open>_learn_tx\<close> in main.py)\<close>

text \<open>ASCII case mapping, for \<^verbatim>\<open>str.lower\<close> and \<^verbatim>\<open>str.upper\<close> (strings are taken as ASCII).\<close>

definition lower_char :: "char \<Rightarrow> char" where
  "lower_char c =
    (case map_of (zip ''ABCDEFGHIJKLMNOPQRSTUVWXYZ'' ''abcdefghijklmnopqrstuvwxyz'') c of
       None \<Rightarrow> c | Some d \<Rightarrow> d)"

definition upper_char :: "char \<Rightarrow> char" where
  "upper_char c =
    (case map_of (zip ''abcdefghijklmnopqrstuvwxyz'' ''ABCDEFGHIJKLMNOPQRSTUVWXYZ'') c of
       None \<Rightarrow> c | Some d \<Rightarrow> d)"

definition py_lower :: "string \<Rightarrow> string" where
  "py_lower s = map lower_char s"

definition py_upper :: "string \<Rightarrow> string" where
  "py_upper s = map upper_char s"

text \<open>One entry of \<^verbatim>\<open>tx_category_stats\<close>: \<^verbatim>\<open>{"n": .., "median": .., "mad": ..}\<close>.\<close>

record cat_stats =
  st_n :: int
  st_median :: real
  st_mad :: real

definition zero_stats :: cat_stats where
  "zero_stats = \<lparr>st_n = 0, st_median = 0, st_mad = 0\<rparr>"

text \<open>The transaction part of \<^verbatim>\<open>models.UserIntel\<close>.\<close>

record UserIntel =
  tx_category_stats :: "string \<rightharpoonup> cat_stats"
  tx_merchant_counts :: "string \<rightharpoonup> int"

text \<open>A profile as \<^verbatim>\<open>_get_or_create_intel\<close> creates it.\<close>

definition zeroed_intel :: UserIntel where
  "zeroed_intel = \<lparr>tx_category_stats = Map.empty, tx_merchant_counts = Map.empty\<rparr>"

text \<open>\<^verbatim>\<open>_learn_tx\<close>, on the profile it loads and stores.\<close>

definition learn_tx :: "UserIntel \<Rightarrow> real \<Rightarrow> string \<Rightarrow> string option \<Rightarrow> UserIntel" where
  "learn_tx intel amt cat merchant =
    (let stats = tx_category_stats intel;
         s = dict_get stats cat zero_stats;
         n = st_n s;
         alpha = 1 / 10;
         s1 = (if n = 0 then s\<lparr>st_median := amt, st_mad := 0\<rparr>
               else (let med = (1 - alpha) * st_median s + alpha * amt
                     in s\<lparr>st_median := med,
                          st_mad := (1 - alpha) * st_mad s + alpha * \<bar>amt - med\<bar>\<rparr>));
         s2 = s1\<lparr>st_n := n + 1\<rparr>;
         mcounts = tx_merchant_counts intel;
         mcounts1 = (if truthy merchant
                     then (let key = py_lower (case merchant of None \<Rightarrow> [] | Some m \<Rightarrow> m)
                           in mcounts(key \<mapsto> dict_get mcounts key 0 + 1))
                     else mcounts)
     in \<lparr>tx_category_stats = stats(cat \<mapsto> s2), tx_merchant_counts = mcounts1\<rparr>)"

text \<open>A transaction as \<^verbatim>\<open>add_tx\<close> hands it over: amount, category, merchant.\<close>

type_synonym tx = "real \<times> string \<times> string option"

fun learn_all :: "UserIntel \<Rightarrow> tx list \<Rightarrow> UserIntel" where
  "learn_all intel [] = intel"
| "learn_all intel ((amt, cat, merchant) # txs) = learn_all (learn_tx intel amt cat merchant) txs"

text \<open>
  The update of one category as the specification words it, with the seeding of the
  first transaction: the median starts at the first amount and the MAD at 0.
\<close>

definition ewma_step :: "cat_stats \<Rightarrow> real \<Rightarrow> cat_stats" where
  "ewma_step s x =
    (if st_n s = 0 then \<lparr>st_n = 1, st_median = x, st_mad = 0\<rparr>
     else \<lparr>st_n = st_n s + 1,
           st_median = (1 - 1 / 10) * st_median s + (1 / 10) * x,
           st_mad = (1 - 1 / 10) * st_mad s
                    + (1 / 10) * \<bar>x - ((1 - 1 / 10) * st_median s + (1 / 10) * x)\<bar>\<rparr>)"

text \<open>The amounts of one category, in the order of the transactions.\<close>

definition amounts_of :: "string \<Rightarrow> tx list \<Rightarrow> real list" where
  "amounts_of c txs = map fst (filter (\<lambda>t. fst (snd t) = c) txs)"

subsection \<open>Configuration updates (\<^verbatim>\<open>update_config\<close>, \<^verbatim>\<open>put_risk_config\<close>)\<close>

text \<open>The values a JSON body can hold.\<close>

datatype pyval =
  PyNone | PyBool bool | PyInt int | PyFloat real | PyStr string
  | PyList "pyval list" | PyDict "(string \<times> pyval) list"

text \<open>
  Exceptions. \<open>BackendError\<close> stands for whatever a call into scikit-learn or torch
  raises.
\<close>

datatype py_error =
  TypeError | ValueError | OverflowError | ZeroDivisionError | RuntimeError string
  | BackendError string

text \<open>
  \<^verbatim>\<open>float(v)\<close> and \<^verbatim>\<open>int(v)\<close>. How Python reads a number out of a string is not
  modelled: \<open>pf\<close> and \<open>pi\<close> are its parsers, \<open>None\<close> where it raises \<^verbatim>\<open>ValueError\<close>.
  An integer that rounds to a double beyond the largest one, from \<open>2 ^ 1024 - 2 ^ 970\<close> on
  in absolute value, makes \<^verbatim>\<open>float\<close> raise \<^verbatim>\<open>OverflowError\<close>.
\<close>

fun py_float :: "(string \<Rightarrow> real option) \<Rightarrow> pyval \<Rightarrow> py_error + real" where
  "py_float pf (PyFloat x) = Inr x"
| "py_float pf (PyInt i) =
    (if \<bar>i\<bar> \<ge> 2 ^ 1024 - 2 ^ 970 then Inl OverflowError else Inr (of_int i))"
| "py_float pf (PyBool b) = Inr (if b then 1 else 0)"
| "py_float pf (PyStr s) = (case pf s of None \<Rightarrow> Inl ValueError | Some x \<Rightarrow> Inr x)"
| "py_float pf PyNone = Inl TypeError"
| "py_float pf (PyList xs) = Inl TypeError"
| "py_float pf (PyDict kvs) = Inl TypeError"

fun py_int :: "(string \<Rightarrow> int option) \<Rightarrow> pyval \<Rightarrow> py_error + int" where
  "py_int pi' (PyInt i) = Inr i"
| "py_int pi' (PyFloat x) = Inr (if x \<ge> 0 then \<lfloor>x\<rfloor> else \<lceil>x\<rceil>)"
| "py_int pi' (PyBool b) = Inr (if b then 1 else 0)"
| "py_int pi' (PyStr s) = (case pi' s of None \<Rightarrow> Inl ValueError | Some i \<Rightarrow> Inr i)"
| "py_int pi' PyNone = Inl TypeError"
| "py_int pi' (PyList xs) = Inl TypeError"
| "py_int pi' (PyDict kvs) = Inl TypeError"

text \<open>The comprehension \<^verbatim>\<open>{k: float(v) for k, v in new_cfg["weights"].items()}\<close>.\<close>

fun convert_weights ::
  "(string \<Rightarrow> real option) \<Rightarrow> (string \<times> pyval) list \<Rightarrow> py_error + (string \<times> real) list" where
  "convert_weights pf [] = Inr []"
| "convert_weights pf ((k, v) # kvs) =
    (case py_float pf v of
       Inl e \<Rightarrow> Inl e
     | Inr x \<Rightarrow> (case convert_weights pf kvs of
                   Inl e \<Rightarrow> Inl e
                 | Inr xs \<Rightarrow> Inr ((k, x) # xs)))"

text \<open>The five statements of \<^verbatim>\<open>update_config\<close>, each on the global \<^verbatim>\<open>CONFIG\<close>.\<close>

definition set_weights ::
  "(string \<Rightarrow> real option) \<Rightarrow> (string \<rightharpoonup> pyval) \<Rightarrow> RiskConfig \<Rightarrow> py_error + RiskConfig" where
  "set_weights pf new_cfg C =
    (case new_cfg ''weights'' of
       Some (PyDict kvs) \<Rightarrow>
         (case convert_weights pf kvs of
            Inl e \<Rightarrow> Inl e
          | Inr ws \<Rightarrow> Inr (C\<lparr>weights := weights C ++ map_of (rev ws)\<rparr>))
     | _ \<Rightarrow> Inr C)"

definition set_scale ::
  "(string \<Rightarrow> real option) \<Rightarrow> (string \<rightharpoonup> pyval) \<Rightarrow> RiskConfig \<Rightarrow> py_error + RiskConfig" where
  "set_scale pf new_cfg C =
    (case new_cfg ''scale'' of
       None \<Rightarrow> Inr C
     | Some v \<Rightarrow> (case py_float pf v of Inl e \<Rightarrow> Inl e | Inr x \<Rightarrow> Inr (C\<lparr>scale := x\<rparr>)))"

definition set_intercept ::
  "(string \<Rightarrow> real option) \<Rightarrow> (string \<rightharpoonup> pyval) \<Rightarrow> RiskConfig \<Rightarrow> py_error + RiskConfig" where
  "set_intercept pf new_cfg C =
    (case new_cfg ''intercept'' of
       None \<Rightarrow> Inr C
     | Some v \<Rightarrow> (case py_float pf v of Inl e \<Rightarrow> Inl e | Inr x \<Rightarrow> Inr (C\<lparr>intercept := x\<rparr>)))"

definition set_step_up ::
  "(string \<Rightarrow> int option) \<Rightarrow> (string \<rightharpoonup> pyval) \<Rightarrow> RiskConfig \<Rightarrow> py_error + RiskConfig" where
  "set_step_up pi' new_cfg C =
    (case new_cfg ''step_up_threshold'' of
       None \<Rightarrow> Inr C
     | Some v \<Rightarrow>
         (case py_int pi' v of Inl e \<Rightarrow> Inl e | Inr i \<Rightarrow> Inr (C\<lparr>step_up_threshold := i\<rparr>)))"

definition set_hard_deny ::
  "(string \<Rightarrow> int option) \<Rightarrow> (string \<rightharpoonup> pyval) \<Rightarrow> RiskConfig \<Rightarrow> py_error + RiskConfig" where
  "set_hard_deny pi' new_cfg C =
    (case new_cfg ''hard_deny_threshold'' of
       None \<Rightarrow> Inr C
     | Some v \<Rightarrow>
         (case py_int pi' v of Inl e \<Rightarrow> Inl e | Inr i \<Rightarrow> Inr (C\<lparr>hard_deny_threshold := i\<rparr>)))"

text \<open>
  Sequencing on the global: a statement that raises ends the call and leaves \<^verbatim>\<open>CONFIG\<close>
  as the statements before it made it. The result is the exception, if any, and the
  configuration the call leaves behind.
\<close>

definition and_then ::
  "py_error option \<times> RiskConfig \<Rightarrow> (RiskConfig \<Rightarrow> py_error + RiskConfig)
     \<Rightarrow> py_error option \<times> RiskConfig" where
  "and_then r stmt =
    (case r of
       (Some e, C) \<Rightarrow> (Some e, C)
     | (None, C) \<Rightarrow> (case stmt C of Inl e \<Rightarrow> (Some e, C) | Inr C' \<Rightarrow> (None, C')))"

definition update_config ::
  "(string \<Rightarrow> real option) \<Rightarrow> (string \<Rightarrow> int option) \<Rightarrow> (string \<rightharpoonup> pyval) \<Rightarrow> RiskConfig
     \<Rightarrow> py_error option \<times> RiskConfig" where
  "update_config pf pi' new_cfg C =
    and_then (and_then (and_then (and_then (and_then (None, C)
      (set_weights pf new_cfg)) (set_scale pf new_cfg)) (set_intercept pf new_cfg))
      (set_step_up pi' new_cfg)) (set_hard_deny pi' new_cfg)"

text \<open>
  \<^verbatim>\<open>put_risk_config\<close>: the body, already validated against \<^verbatim>\<open>RiskConfigIn\<close> and
  dumped without its unset fields, goes to \<^verbatim>\<open>update_config\<close>; the two module globals
  follow the thresholds when the call returns.
\<close>

record app_globals =
  g_config :: RiskConfig
  g_step_up :: int
  g_hard_deny :: int

definition put_risk_config ::
  "(string \<Rightarrow> real option) \<Rightarrow> (string \<Rightarrow> int option) \<Rightarrow> (string \<rightharpoonup> pyval) \<Rightarrow> app_globals
     \<Rightarrow> py_error option \<times> app_globals" where
  "put_risk_config pf pi' body g =
    (case update_config pf pi' body (g_config g) of
       (Some e, C) \<Rightarrow> (Some e, g\<lparr>g_config := C\<rparr>)
     | (None, C) \<Rightarrow>
         (None, \<lparr>g_config = C, g_step_up = step_up_threshold C,
                 g_hard_deny = hard_deny_threshold C\<rparr>))"

text \<open>The fields in the order \<^verbatim>\<open>update_config\<close> applies them.\<close>

definition config_fields :: "string list" where
  "config_fields =
    [''weights'', ''scale'', ''intercept'', ''step_up_threshold'', ''hard_deny_threshold'']"

subsection \<open>The anomaly engine (\<^verbatim>\<open>anomaly_engine.py\<close>)\<close>

text \<open>A transaction row: the keys \<^verbatim>\<open>featurize_rows\<close> reads, \<open>None\<close> for a missing one.\<close>

record tx_row =
  row_amount :: "real option"
  row_category :: "string option"
  row_merchant :: "string option"

text \<open>\<^verbatim>\<open>_stable_hash\<close>: FNV-1a on 32 bits.\<close>

fun fnv_loop :: "int \<Rightarrow> string \<Rightarrow> int" where
  "fnv_loop h [] = h"
| "fnv_loop h (ch # s) = fnv_loop (((h XOR int (of_char ch)) * 16777619) AND 4294967295) s"

definition stable_hash :: "string \<Rightarrow> int" where
  "stable_hash s = (if s = [] then 0 else fnv_loop 2166136261 s)"

text \<open>\<^verbatim>\<open>x or ""\<close> for an optional string.\<close>

definition or_empty :: "string option \<Rightarrow> string" where
  "or_empty x = (case x of None \<Rightarrow> [] | Some s \<Rightarrow> s)"

definition featurize_row :: "tx_row \<Rightarrow> real list" where
  "featurize_row r =
    (let amt = (case row_amount r of None \<Rightarrow> 0 | Some a \<Rightarrow> a);
         cat = py_upper (or_empty (row_category r));
         merch = py_lower (or_empty (row_merchant r));
         log_amt = ln (1 + max amt 0);
         cat_bucket = stable_hash cat mod 1000;
         merch_bucket = stable_hash merch mod 2000
     in [log_amt, real_of_int cat_bucket / 999, real_of_int merch_bucket / 1999])"

definition featurize_rows :: "tx_row list \<Rightarrow> real list list" where
  "featurize_rows rows = map featurize_row rows"

record IFConfig =
  if_contamination :: real
  if_n_estimators :: int
  if_random_state :: int
  if_min_train_rows :: int

record AEConfig =
  ae_min_train_rows :: int
  ae_epochs :: int
  ae_batch_size :: int
  ae_lr :: real
  ae_hidden_dim :: int
  ae_bottleneck_dim :: int
  ae_device :: string
  ae_score_percentile :: real

record DetectorConfig =
  dc_method :: string
  dc_iforest :: IFConfig
  dc_autoenc :: AEConfig

definition IFConfig_default :: IFConfig where
  "IFConfig_default =
    \<lparr>if_contamination = 8 / 100, if_n_estimators = 200, if_random_state = 42,
     if_min_train_rows = 10\<rparr>"

definition AEConfig_default :: AEConfig where
  "AEConfig_default =
    \<lparr>ae_min_train_rows = 40, ae_epochs = 40, ae_batch_size = 64, ae_lr = 1 / 1000,
     ae_hidden_dim = 16, ae_bottleneck_dim = 4, ae_device = ''cpu'', ae_score_percentile = 95\<rparr>"

definition DetectorConfig_default :: DetectorConfig where
  "DetectorConfig_default =
    \<lparr>dc_method = ''auto'', dc_iforest = IFConfig_default, dc_autoenc = AEConfig_default\<rparr>"

text \<open>A value of the details dictionary.\<close>

datatype dval = DStr string | DNum real

type_synonym details = "string \<rightharpoonup> dval"

text \<open>
  The libraries. scikit-learn and torch are not part of the repository; the model takes
  what their calls return, or the exception they raise:
  \<^item> \<open>sk_fit\<close>: fit the \<^verbatim>\<open>StandardScaler\<close>, transform, fit the \<^verbatim>\<open>IsolationForest\<close>;
  \<^item> \<open>sk_decision\<close>: transform one row and take \<^verbatim>\<open>decision_function(Xs)[0]\<close>;
  \<^item> \<open>torch_fit\<close>: fit the scaler, train the autoencoder, take the error percentiles;
  \<^item> \<open>torch_recon\<close>: the reconstruction error of one row.
  \<open>'sc\<close>, \<open>'md\<close> and \<open>'ae\<close> are the fitted scaler, forest and network.
\<close>

record ('sc, 'md, 'ae) backends =
  TORCH_AVAILABLE :: bool
  sk_fit :: "IFConfig \<Rightarrow> real list list \<Rightarrow> py_error + 'sc \<times> 'md"
  sk_decision :: "'sc \<Rightarrow> 'md \<Rightarrow> real list list \<Rightarrow> py_error + real"
  torch_fit :: "AEConfig \<Rightarrow> real list list \<Rightarrow> py_error + 'sc \<times> 'ae \<times> (string \<rightharpoonup> real)"
  torch_recon :: "'sc \<Rightarrow> 'ae \<Rightarrow> real list list \<Rightarrow> py_error + real"

text \<open>The fields of the two detector objects.\<close>

record ('sc, 'md) IsolationForestDetector =
  if_scaler :: "'sc option"
  if_model :: "'md option"

record ('sc, 'ae) AutoencoderDetector =
  ae_scaler :: "'sc option"
  ae_model :: "'ae option"
  ae_thresholds :: "string \<rightharpoonup> real"

text \<open>\<^verbatim>\<open>IsolationForestDetector.train\<close>: the trained count and the detector afterwards.\<close>

definition if_train ::
  "('sc, 'md, 'ae) backends \<Rightarrow> IFConfig \<Rightarrow> ('sc, 'md) IsolationForestDetector \<Rightarrow> tx_row list
     \<Rightarrow> py_error + int \<times> ('sc, 'md) IsolationForestDetector" where
  "if_train env cfg d rows =
    (if int (length rows) < if_min_train_rows cfg then Inr (0, d\<lparr>if_model := None\<rparr>)
     else (case sk_fit env cfg (featurize_rows rows) of
             Inl e \<Rightarrow> Inl e
           | Inr (sc, md) \<Rightarrow> Inr (int (length rows), \<lparr>if_scaler = Some sc, if_model = Some md\<rparr>)))"

text \<open>\<^verbatim>\<open>IsolationForestDetector.score_one\<close>.\<close>

definition if_score_one ::
  "('sc, 'md, 'ae) backends \<Rightarrow> ('sc, 'md) IsolationForestDetector \<Rightarrow> tx_row
     \<Rightarrow> py_error + int \<times> details" where
  "if_score_one env d row =
    (case (if_model d, if_scaler d) of
       (Some md, Some sc) \<Rightarrow>
         (case sk_decision env sc md (featurize_rows [row]) of
            Inl e \<Rightarrow> Inl e
          | Inr raw \<Rightarrow>
              Inr (\<lfloor>max 0 (min 100 ((1 / 2 - raw) * 100))\<rfloor>, [''raw_score'' \<mapsto> DNum raw]))
     | _ \<Rightarrow> Inr (0, [''reason'' \<mapsto> DStr ''model_not_trained'']))"

text \<open>\<^verbatim>\<open>AutoencoderDetector._ensure_torch\<close>.\<close>

definition ensure_torch :: "('sc, 'md, 'ae) backends \<Rightarrow> py_error + unit" where
  "ensure_torch env =
    (if \<not> TORCH_AVAILABLE env
     then Inl (RuntimeError ''PyTorch is not available. Install torch to use autoencoder mode.'')
     else Inr ())"

text \<open>\<^verbatim>\<open>AutoencoderDetector.train\<close>.\<close>

definition ae_train ::
  "('sc, 'md, 'ae) backends \<Rightarrow> AEConfig \<Rightarrow> ('sc, 'ae) AutoencoderDetector \<Rightarrow> tx_row list
     \<Rightarrow> py_error + int \<times> ('sc, 'ae) AutoencoderDetector" where
  "ae_train env cfg d rows =
    (case ensure_torch env of
       Inl e \<Rightarrow> Inl e
     | Inr u \<Rightarrow>
        (if int (length rows) < ae_min_train_rows cfg then Inr (0, d\<lparr>ae_model := None\<rparr>)
         else (case torch_fit env cfg (featurize_rows rows) of
                 Inl e \<Rightarrow> Inl e
               | Inr (sc, net, th) \<Rightarrow>
                   Inr (int (length rows),
                        \<lparr>ae_scaler = Some sc, ae_model = Some net, ae_thresholds = th\<rparr>))))"

text \<open>
  \<^verbatim>\<open>AutoencoderDetector.score_one\<close>. A float division by zero raises in Python; the
  model says so.
\<close>

definition ae_score_one ::
  "('sc, 'md, 'ae) backends \<Rightarrow> ('sc, 'ae) AutoencoderDetector \<Rightarrow> tx_row
     \<Rightarrow> py_error + int \<times> details" where
  "ae_score_one env d row =
    (case ensure_torch env of
       Inl e \<Rightarrow> Inl e
     | Inr u \<Rightarrow>
        (case (ae_model d, ae_scaler d) of
           (Some net, Some sc) \<Rightarrow>
             (case torch_recon env sc net (featurize_rows [row]) of
                Inl e \<Rightarrow> Inl e
              | Inr err \<Rightarrow>
                  (let th = ae_thresholds d;
                       p95 = dict_get th ''p95'' err;
                       p99 = dict_get th ''p99'' (max err (p95 + 1 / 1000000));
                       det = [''recon_error'' \<mapsto> DNum err] ++ (map_option DNum \<circ> th)
                   in if err \<le> p95
                      then (if p95 + 1 / 1000000000 = 0 then Inl ZeroDivisionError
                            else Inr (\<lfloor>max 0 (min 50 ((err / (p95 + 1 / 1000000000)) * 50))\<rfloor>,
                                      det))
                      else (if p99 - p95 + 1 / 1000000000 = 0 then Inl ZeroDivisionError
                            else Inr (50 + \<lfloor>max 0 (min 50
                                        ((err - p95) / (p99 - p95 + 1 / 1000000000) * 50))\<rfloor>,
                                      det))))
         | _ \<Rightarrow> Inr (0, [''reason'' \<mapsto> DStr ''model_not_trained''])))"

text \<open>The facade object: its configuration and its two detectors.\<close>

record ('sc, 'md, 'ae) AnomalyDetector =
  ad_cfg :: DetectorConfig
  ad_iforest :: "('sc, 'md) IsolationForestDetector"
  ad_autoenc :: "('sc, 'ae) AutoencoderDetector"

text \<open>\<^verbatim>\<open>AnomalyDetector.__init__\<close>.\<close>

definition AnomalyDetector_init :: "DetectorConfig \<Rightarrow> ('sc, 'md, 'ae) AnomalyDetector" where
  "AnomalyDetector_init cfg =
    \<lparr>ad_cfg = cfg, ad_iforest = \<lparr>if_scaler = None, if_model = None\<rparr>,
     ad_autoenc = \<lparr>ae_scaler = None, ae_model = None, ae_thresholds = Map.empty\<rparr>\<rparr>"

text \<open>\<^verbatim>\<open>str(e)\<close> for an exception.\<close>

fun exc_str :: "py_error \<Rightarrow> string" where
  "exc_str (RuntimeError m) = m"
| "exc_str (BackendError m) = m"
| "exc_str TypeError = []"
| "exc_str ValueError = []"
| "exc_str ZeroDivisionError = ''float division by zero''"
| "exc_str OverflowError = ''int too large to convert to float''"

text \<open>
  The local functions \<^verbatim>\<open>_try_iforest\<close> and \<^verbatim>\<open>_try_autoenc\<close>: name, trained count,
  score, details. The fields a detector is left with are not part of the result, and a
  later training overwrites them.
\<close>

definition try_iforest ::
  "('sc, 'md, 'ae) backends \<Rightarrow> ('sc, 'md, 'ae) AnomalyDetector \<Rightarrow> tx_row list \<Rightarrow> tx_row
     \<Rightarrow> py_error + string \<times> int \<times> int \<times> details" where
  "try_iforest env det hist_rows newest_row =
    (case if_train env (dc_iforest (ad_cfg det)) (ad_iforest det) hist_rows of
       Inl e \<Rightarrow> Inl e
     | Inr (n, d) \<Rightarrow>
         (case if_score_one env d newest_row of
            Inl e \<Rightarrow> Inl e
          | Inr (s, dt) \<Rightarrow> Inr (''iforest'', n, s, dt)))"

definition try_autoenc ::
  "('sc, 'md, 'ae) backends \<Rightarrow> ('sc, 'md, 'ae) AnomalyDetector \<Rightarrow> tx_row list \<Rightarrow> tx_row
     \<Rightarrow> py_error + string \<times> int \<times> int \<times> details" where
  "try_autoenc env det hist_rows newest_row =
    (case ae_train env (dc_autoenc (ad_cfg det)) (ad_autoenc det) hist_rows of
       Inl e \<Rightarrow> Inl e
     | Inr (n, d) \<Rightarrow>
         (case ae_score_one env d newest_row of
            Inl e \<Rightarrow> Inl e
          | Inr (s, dt) \<Rightarrow> Inr (''autoenc'', n, s, dt)))"

text \<open>The tuple a branch returns: \<^verbatim>\<open>return used, score, details, n_train\<close>.\<close>

definition returned ::
  "py_error + string \<times> int \<times> int \<times> details \<Rightarrow> py_error + string \<times> int \<times> details \<times> int" where
  "returned r = (case r of Inl e \<Rightarrow> Inl e | Inr (used, n, s, dt) \<Rightarrow> Inr (used, s, dt, n))"

text \<open>
  The handler \<^verbatim>\<open>except Exception as e\<close>: the forest, with the fallback written in front
  of its details (a key of the details wins over the same key in front).
\<close>

definition fallback_iforest ::
  "('sc, 'md, 'ae) backends \<Rightarrow> ('sc, 'md, 'ae) AnomalyDetector \<Rightarrow> tx_row list \<Rightarrow> tx_row
     \<Rightarrow> py_error \<Rightarrow> py_error + string \<times> int \<times> details \<times> int" where
  "fallback_iforest env det hist_rows newest_row e =
    (case try_iforest env det hist_rows newest_row of
       Inl e' \<Rightarrow> Inl e'
     | Inr (used, n, s, dt) \<Rightarrow>
         Inr (used, s,
              [''fallback'' \<mapsto> DStr ''iforest'', ''reason'' \<mapsto> DStr (exc_str e)] ++ dt, n))"

text \<open>\<^verbatim>\<open>a or b\<close> on strings: the first one that is not empty.\<close>

definition str_or :: "string option \<Rightarrow> string \<Rightarrow> string" where
  "str_or a b = (case a of None \<Rightarrow> b | Some s \<Rightarrow> if s = [] then b else s)"

text \<open>\<^verbatim>\<open>AnomalyDetector.train_and_score\<close>.\<close>

definition train_and_score ::
  "('sc, 'md, 'ae) backends \<Rightarrow> ('sc, 'md, 'ae) AnomalyDetector \<Rightarrow> tx_row list \<Rightarrow> tx_row
     \<Rightarrow> string option \<Rightarrow> py_error + string \<times> int \<times> details \<times> int" where
  "train_and_score env det hist_rows newest_row force_method =
    (let method = py_lower (str_or force_method (str_or (Some (dc_method (ad_cfg det))) ''auto''))
     in if method = ''iforest'' then returned (try_iforest env det hist_rows newest_row)
        else if method = ''autoenc'' then
          (case (case try_autoenc env det hist_rows newest_row of
                   Inl e \<Rightarrow> Inl e
                 | Inr (used, n_train, s, dt) \<Rightarrow>
                     if n_train = 0 then returned (try_iforest env det hist_rows newest_row)
                     else Inr (used, s, dt, n_train)) of
             Inr r \<Rightarrow> Inr r
           | Inl e \<Rightarrow> fallback_iforest env det hist_rows newest_row e)
        else if TORCH_AVAILABLE env
                \<and> int (length hist_rows) \<ge> ae_min_train_rows (dc_autoenc (ad_cfg det)) then
          (case returned (try_autoenc env det hist_rows newest_row) of
             Inr r \<Rightarrow> Inr r
           | Inl e \<Rightarrow> fallback_iforest env det hist_rows newest_row e)
        else returned (try_iforest env det hist_rows newest_row))"

text \<open>The scikit-learn calls return: they raise on no input.\<close>

definition sklearn_returns :: "('sc, 'md, 'ae) backends \<Rightarrow> bool" where
  "sklearn_returns env \<longleftrightarrow>
     (\<forall>cfg X. \<exists>r. sk_fit env cfg X = Inr r) \<and> (\<forall>sc md X. \<exists>raw. sk_decision env sc md X = Inr raw)"

text \<open>
  A stand-in for the libraries, to run the facade on: the forest scores every row
  \<open>0.1\<close>, the autoencoder reconstructs every row with error \<open>0.2\<close>.
\<close>

definition demo_backends :: "bool \<Rightarrow> (unit, unit, unit) backends" where
  "demo_backends torch =
    \<lparr>TORCH_AVAILABLE = torch,
     sk_fit = (\<lambda>cfg X. Inr ((), ())),
     sk_decision = (\<lambda>sc md X. Inr (1 / 10)),
     torch_fit = (\<lambda>cfg X. Inr ((), (), [''p95'' \<mapsto> 1, ''p99'' \<mapsto> 2, ''median'' \<mapsto> 1 / 2])),
     torch_recon = (\<lambda>sc net X. Inr (2 / 10))\<rparr>"

text \<open>
  A stand-in with scikit-learn's check of the forest's parameters at the fit:
  \<^verbatim>\<open>contamination\<close> in \<open>(0, 0.5]\<close> and at least one estimator, or it raises
  \<^verbatim>\<open>InvalidParameterError\<close>. Torch is installed.
\<close>

definition strict_backends :: "(unit, unit, unit) backends" where
  "strict_backends =
    \<lparr>TORCH_AVAILABLE = True,
     sk_fit = (\<lambda>cfg X.
        if 0 < if_contamination cfg \<and> if_contamination cfg \<le> 1 / 2 \<and> 1 \<le> if_n_estimators cfg
        then Inr ((), ()) else Inl (BackendError ''InvalidParameterError'')),
     sk_decision = (\<lambda>sc md X. Inr (1 / 10)),
     torch_fit = (\<lambda>cfg X. Inr ((), (), [''p95'' \<mapsto> 1, ''p99'' \<mapsto> 2, ''median'' \<mapsto> 1 / 2])),
     torch_recon = (\<lambda>sc net X. Inr (2 / 10))\<rparr>"

definition food_row :: tx_row where
  "food_row = \<lparr>row_amount = Some 20, row_category = Some ''FOOD'', row_merchant = Some ''cafe''\<rparr>"

section \<open>Theorems\<close>

lemma list_ex_count: "list_ex success recent \<longleftrightarrow> 1 \<le> prior_success_count recent"
  by (induction recent) (auto simp: prior_success_count_def)

text \<open>
  C1. With the fused score \<open>S\<close>: the attempt is hard-denied (HTTP 403) if and only if
  \<open>S\<close> reaches the hard-deny threshold and the history holds at least one successful
  login; otherwise step-up is signalled if and only if \<open>S\<close> reaches the step-up threshold,
  and the attempt is allowed otherwise. An account with no prior successful login is
  never hard-denied, whatever \<open>S\<close> is.
\<close>

theorem C1_decision_policy:
  "(decision_of (login_decision H U recent S) = HARD_DENY
      \<longleftrightarrow> S \<ge> H \<and> 1 \<le> prior_success_count recent)
   \<and> (login_decision H U recent S = Inl (HTTPException 403 ''Login blocked for security'')
      \<longleftrightarrow> S \<ge> H \<and> 1 \<le> prior_success_count recent)
   \<and> (decision_of (login_decision H U recent S) = STEP_UP
      \<longleftrightarrow> \<not> (S \<ge> H \<and> 1 \<le> prior_success_count recent) \<and> S \<ge> U)
   \<and> (decision_of (login_decision H U recent S) = ALLOW
      \<longleftrightarrow> \<not> (S \<ge> H \<and> 1 \<le> prior_success_count recent) \<and> \<not> S \<ge> U)
   \<and> (prior_success_count recent = 0
      \<longrightarrow> decision_of (login_decision H U recent S) \<noteq> HARD_DENY)"
  by (auto simp: login_decision_def decision_of_def Let_def list_ex_count)

theorem C1_decision_policy_witness:
  "prior_success_count [\<lparr>ts = 0, ip = ''10.0.0.1'', device_hash = None, success = False\<rparr>] = 0
   \<and> decision_of (login_decision 90 60
        [\<lparr>ts = 0, ip = ''10.0.0.1'', device_hash = None, success = False\<rparr>] 100) = STEP_UP
   \<and> decision_of (login_decision 90 60
        [\<lparr>ts = 0, ip = ''10.0.0.1'', device_hash = None, success = True\<rparr>] 100) = HARD_DENY
   \<and> decision_of (login_decision 90 60
        [\<lparr>ts = 0, ip = ''10.0.0.1'', device_hash = None, success = True\<rparr>] 59) = ALLOW"
  using C1_decision_policy [of 90 60
      "[\<lparr>ts = 0, ip = ''10.0.0.1'', device_hash = None, success = False\<rparr>]" 100]
    C1_decision_policy [of 90 60
      "[\<lparr>ts = 0, ip = ''10.0.0.1'', device_hash = None, success = True\<rparr>]" 100]
    C1_decision_policy [of 90 60
      "[\<lparr>ts = 0, ip = ''10.0.0.1'', device_hash = None, success = True\<rparr>]" 59]
  by (auto simp: prior_success_count_def)

text \<open>
  C3. The fusion returns \<open>min 100 (calibrated score + sum of the applicable bumps)\<close>,
  the bad-address bump being 30. With only the bad-address flag set a calibrated score of
  50 becomes 80, and every calibrated score of at least 70 becomes 100.
\<close>

theorem C3_ti_fusion:
  "ti_fusion base (lookup_ip en is_addr ip_bad ip_tor asn_bad a) disp breached =
     min 100 (base + applicable_bumps (lookup_ip en is_addr ip_bad ip_tor asn_bad a) disp breached)
   \<and> TI_DEFAULT_SCORE_BUMPS Ti_bad_ip = 30
   \<and> ti_fusion 50 (lookup_ip True (\<lambda>x. True) {b} {} {} b) False False = 80
   \<and> (70 \<le> base \<longrightarrow> ti_fusion base (lookup_ip True (\<lambda>x. True) {b} {} {} b) False False = 100)"
  by (simp add: ti_fusion_def lookup_ip_def applicable_bumps_def asn_for_ip_def Let_def)

theorem C3_ti_fusion_witness:
  "(70::int) \<le> 85
   \<and> ti_fusion 85 (lookup_ip True (\<lambda>x. True) {''203.0.113.7''} {} {} ''203.0.113.7'') False False = 100
   \<and> ti_fusion 50 (lookup_ip True (\<lambda>x. True) {''203.0.113.7''} {} {} ''203.0.113.7'') False False = 80"
  using C3_ti_fusion [of 85 True "\<lambda>x. True" "{''203.0.113.7''}" "{}" "{}" "''203.0.113.7''" False False
      "''203.0.113.7''"]
  by simp

subsection \<open>Rounding and the half-life factor\<close>

lemma py_round_le: "x \<le> of_int n \<Longrightarrow> py_round x \<le> n"
  unfolding py_round_def Let_def
  by (auto simp: le_floor_iff floor_le_iff)

lemma py_round_mono: "x \<le> y \<Longrightarrow> py_round x \<le> py_round y"
proof -
  assume xy: "x \<le> y"
  have fl: "\<lfloor>x\<rfloor> \<le> \<lfloor>y\<rfloor>" using xy by (rule floor_mono)
  show ?thesis
  proof (cases "\<lfloor>x\<rfloor> = \<lfloor>y\<rfloor>")
    case True
    then show ?thesis using xy unfolding py_round_def Let_def by auto
  next
    case False
    then have "\<lfloor>x\<rfloor> + 1 \<le> \<lfloor>y\<rfloor>" using fl by simp
    moreover have "py_round x \<le> \<lfloor>x\<rfloor> + 1" unfolding py_round_def Let_def by auto
    moreover have "\<lfloor>y\<rfloor> \<le> py_round y" unfolding py_round_def Let_def by auto
    ultimately show ?thesis by linarith
  qed
qed

lemma half_powr_le1: "0 \<le> d \<Longrightarrow> (1 / 2 :: real) powr (real_of_int d / 30) \<le> 1"
  by (rule powr_le1) auto

lemma half_powr_antimono:
  "d1 \<le> d2 \<Longrightarrow> (1 / 2 :: real) powr (real_of_int d2 / 30) \<le> (1 / 2) powr (real_of_int d1 / 30)"
  by (rule powr_mono') auto

lemma clamp_eq: "max 0 (min x 100) = clamp_0_100 x"
  by (simp add: clamp_0_100_def)

lemma apply_post_rules_eq:
  "apply_post_rules s p (Some fs) t =
     max 0 (min (device_age_decay (Some (max (timedelta_days (t - fs)) 0)) (cold_start_cap p s)) 100)"
  by (simp add: apply_post_rules_def device_age_decay_def cold_start_cap_def Let_def)

lemma decay_nonpos: "m \<le> 0 \<Longrightarrow> 0 \<le> d \<Longrightarrow> device_age_decay (Some d) m \<le> 0"
proof -
  assume m: "m \<le> 0" and d: "0 \<le> d"
  have "real_of_int m * (1 / 2) powr (real_of_int d / 30) \<le> of_int 0"
    using m by (simp add: mult_nonpos_nonneg)
  then have "py_round (real_of_int m * (1 / 2) powr (real_of_int d / 30)) \<le> 0"
    by (rule py_round_le)
  then show ?thesis using m by (simp add: device_age_decay_def)
qed

lemma decay_antimono_nonneg:
  assumes m: "0 \<le> m" and d1: "0 \<le> d1" and d12: "d1 \<le> d2"
  shows "device_age_decay (Some d2) m \<le> device_age_decay (Some d1) m"
proof (cases "d1 > 0")
  case True
  have "real_of_int m * (1 / 2) powr (real_of_int d2 / 30)
        \<le> real_of_int m * (1 / 2) powr (real_of_int d1 / 30)"
    using m by (intro mult_left_mono half_powr_antimono d12) simp
  then show ?thesis using True d12 by (simp add: device_age_decay_def py_round_mono)
next
  case False
  then have z: "d1 = 0" using d1 by simp
  show ?thesis
  proof (cases "d2 > 0")
    case True
    have "real_of_int m * (1 / 2) powr (real_of_int d2 / 30) \<le> real_of_int m * 1"
      using m True by (intro mult_left_mono half_powr_le1) simp_all
    then have "py_round (real_of_int m * (1 / 2) powr (real_of_int d2 / 30)) \<le> m"
      by (intro py_round_le) simp
    then show ?thesis using z True by (simp add: device_age_decay_def)
  next
    case False
    then show ?thesis using z by (simp add: device_age_decay_def)
  qed
qed

lemma decay_clamped_antimono:
  assumes d1: "0 \<le> d1" and d12: "d1 \<le> d2"
  shows "max 0 (min (device_age_decay (Some d2) m) 100)
         \<le> max 0 (min (device_age_decay (Some d1) m) 100)"
proof (cases "0 \<le> m")
  case True
  from decay_antimono_nonneg[OF True d1 d12] show ?thesis by auto
next
  case False
  then have "device_age_decay (Some d2) m \<le> 0" using d1 d12 by (intro decay_nonpos) auto
  then show ?thesis by auto
qed

lemma decay_le_bound:
  assumes d: "0 \<le> d" and mb: "m \<le> b" and b: "0 \<le> b"
  shows "device_age_decay (Some d) m \<le> b"
proof (cases "0 \<le> m")
  case True
  have "device_age_decay (Some d) m \<le> device_age_decay (Some 0) m"
    using True d by (intro decay_antimono_nonneg) auto
  then show ?thesis using mb by (simp add: device_age_decay_def)
next
  case False
  then have "device_age_decay (Some d) m \<le> 0" using d by (intro decay_nonpos) auto
  then show ?thesis using b by simp
qed

lemma cold_start_le_55: "apply_post_rules s 0 fso t \<le> 55"
proof (cases fso)
  case None
  then show ?thesis by (simp add: apply_post_rules_def)
next
  case (Some fs)
  have "cold_start_cap 0 s \<le> 55" by (simp add: cold_start_cap_def)
  then have "device_age_decay (Some (max (timedelta_days (t - fs)) 0)) (cold_start_cap 0 s) \<le> 55"
    by (intro decay_le_bound) auto
  then show ?thesis unfolding Some apply_post_rules_eq by auto
qed

subsection \<open>The post-score calibrator\<close>

text \<open>
  C2. \<^verbatim>\<open>apply_post_rules\<close> is the cold-start cap (at most 55 when there is no prior
  success), then the decay by \<open>0.5 ^ (days / 30)\<close> when a first-seen date is known and
  \<open>days > 0\<close> (none for a device seen today), then the clamp to \<open>[0, 100]\<close>; the decayed
  product is rounded to an integer score. With no prior success the result is at most 55,
  for the rule alone and for \<^verbatim>\<open>score_login\<close> on any configuration and login context.
\<close>

theorem C2_post_rules:
  "apply_post_rules s p fso t =
     calibrate_spec s p (map_option (\<lambda>fs. timedelta_days (t - fs)) fso)
   \<and> (p = 0 \<longrightarrow> apply_post_rules s p fso t \<le> 55)
   \<and> (prior_success_count (butlast (recent_rows a)) = 0 \<longrightarrow> score_login cfg a fso \<le> 55)"
proof (intro conjI impI)
  show "apply_post_rules s p fso t =
      calibrate_spec s p (map_option (\<lambda>fs. timedelta_days (t - fs)) fso)"
    unfolding apply_post_rules_def calibrate_spec_def device_age_decay_def cold_start_cap_def
      Let_def
    by (cases fso) (auto simp: clamp_eq max_absorb1)
next
  assume "p = 0"
  then show "apply_post_rules s p fso t \<le> 55" by (simp add: cold_start_le_55)
next
  assume "prior_success_count (butlast (recent_rows a)) = 0"
  then have "note_prior_successes (snd (login_features a)) = 0"
    by (simp add: login_features_def Let_def prior_success_count_def)
  then show "score_login cfg a fso \<le> 55"
    by (simp add: score_login_def split_beta Let_def cold_start_le_55)
qed

theorem C2_post_rules_witness:
  "apply_post_rules 80 0 (Some 0) 2592000000000 \<le> 55
   \<and> apply_post_rules 80 0 (Some 0) 2592000000000 = 28
   \<and> apply_post_rules 80 0 None 2592000000000 = 55
   \<and> prior_success_count (butlast (recent_rows
        \<lparr>recent_rows = [\<lparr>ts = 2592000000000, ip = ''198.51.100.7'', device_hash = Some ''d1'',
                          success = True\<rparr>],
         login_cities = Map.empty, login_hours_hist = Map.empty, device_trust = Map.empty,
         ip_city = ''Lyon, FR'', is_private_ip = False, dev_hash = Some ''d1'',
         known_device = False, ip_changed = True, consecutive_fails = 4, now = 2592000000000,
         last_success_ts = None, speed_kmh = None\<rparr>)) = 0
   \<and> score_login CONFIG
        \<lparr>recent_rows = [\<lparr>ts = 2592000000000, ip = ''198.51.100.7'', device_hash = Some ''d1'',
                          success = True\<rparr>],
         login_cities = Map.empty, login_hours_hist = Map.empty, device_trust = Map.empty,
         ip_city = ''Lyon, FR'', is_private_ip = False, dev_hash = Some ''d1'',
         known_device = False, ip_changed = True, consecutive_fails = 4, now = 2592000000000,
         last_success_ts = None, speed_kmh = None\<rparr> (Some 0) \<le> 55"
proof -
  have v: "apply_post_rules 80 0 (Some 0) 2592000000000 = 28
      \<and> apply_post_rules 80 0 None 2592000000000 = 55"
    by (simp add: apply_post_rules_def timedelta_days_def py_round_def Let_def)
  from C2_post_rules [of 80 0 "Some 0" 2592000000000
      "\<lparr>recent_rows = [\<lparr>ts = 2592000000000, ip = ''198.51.100.7'', device_hash = Some ''d1'',
                          success = True\<rparr>],
         login_cities = Map.empty, login_hours_hist = Map.empty, device_trust = Map.empty,
         ip_city = ''Lyon, FR'', is_private_ip = False, dev_hash = Some ''d1'',
         known_device = False, ip_changed = True, consecutive_fails = 4, now = 2592000000000,
         last_success_ts = None, speed_kmh = None\<rparr>" CONFIG] v
  show ?thesis by (simp add: prior_success_count_def)
qed

text \<open>
  C9, as amended. For a device first seen today the decay step does nothing: the result
  is the one for an unknown first-seen date, and a score in \<open>[0, 100]\<close> of an account with
  prior successes is returned unchanged. For a fixed score the calibrated result never
  increases with the days since first sight; it is not strictly decreasing, since scores
  are integers.
\<close>

theorem C9_decay_monotone:
  "(timedelta_days (t - fs) = 0 \<longrightarrow>
      apply_post_rules s p (Some fs) t = apply_post_rules s p None t)
   \<and> (timedelta_days (t - fs) = 0 \<and> p \<noteq> 0 \<and> 0 \<le> s \<and> s \<le> 100 \<longrightarrow>
      apply_post_rules s p (Some fs) t = s)
   \<and> (timedelta_days (t1 - fs) \<le> timedelta_days (t2 - fs) \<longrightarrow>
      apply_post_rules s p (Some fs) t2 \<le> apply_post_rules s p (Some fs) t1)"
proof (intro conjI impI)
  assume "timedelta_days (t - fs) = 0"
  then show "apply_post_rules s p (Some fs) t = apply_post_rules s p None t"
    by (simp add: apply_post_rules_def)
next
  assume "timedelta_days (t - fs) = 0 \<and> p \<noteq> 0 \<and> 0 \<le> s \<and> s \<le> 100"
  then show "apply_post_rules s p (Some fs) t = s"
    by (simp add: apply_post_rules_def)
next
  assume le: "timedelta_days (t1 - fs) \<le> timedelta_days (t2 - fs)"
  have "max (timedelta_days (t1 - fs)) 0 \<le> max (timedelta_days (t2 - fs)) 0"
    using le by auto
  then show "apply_post_rules s p (Some fs) t2 \<le> apply_post_rules s p (Some fs) t1"
    unfolding apply_post_rules_eq by (intro decay_clamped_antimono) auto
qed

theorem C9_decay_monotone_witness:
  "timedelta_days (2592000000000 - 0) \<le> timedelta_days (5184000000000 - 0)
   \<and> apply_post_rules 100 3 (Some 0) 5184000000000 \<le> apply_post_rules 100 3 (Some 0) 2592000000000
   \<and> apply_post_rules 100 3 (Some 0) 5184000000000 = 25
   \<and> apply_post_rules 100 3 (Some 0) 2592000000000 = 50
   \<and> timedelta_days (3600000000 - 0) = 0
   \<and> apply_post_rules 100 3 (Some 0) 3600000000 = 100"
  using C9_decay_monotone [of 3600000000 0 100 3 2592000000000 5184000000000]
  by (simp add: timedelta_days_def apply_post_rules_def py_round_def Let_def power_one_over)

text \<open>
  The claim as stated fails: a score of 0 stays 0 from day 1 to day 2, and a score of 100
  is 0 after 300 days and after 330 days.
\<close>

theorem C9_strict_decrease_counterexample:
  "\<not> (apply_post_rules 0 3 (Some 0) (2 * 86400000000)
        < apply_post_rules 0 3 (Some 0) (1 * 86400000000))
   \<and> \<not> (apply_post_rules 100 3 (Some 0) (330 * 86400000000)
          < apply_post_rules 100 3 (Some 0) (300 * 86400000000))"
  by (simp add: timedelta_days_def apply_post_rules_def py_round_def Let_def power_one_over)

subsection \<open>The linear scorer\<close>

lemma sigmoid_py_eq: "sigmoid_py x = sigmoid x"
  unfolding sigmoid_py_def sigmoid_def Let_def
  by (simp add: exp_minus field_simps add_pos_pos)

lemma linear_loop_sum: "linear_loop ws fs s = s + weighted_sum ws fs"
  by (induction fs arbitrary: s) (auto simp: weighted_sum_def dict_get_def split: option.splits)

lemma weighted_sum_filter:
  "weighted_sum ws (filter (\<lambda>kv. ws (fst kv) \<noteq> None) fs) = weighted_sum ws fs"
  by (induction fs) (auto simp: weighted_sum_def)

lemma linear_score_eq_spec: "linear_score fs cfg = linear_score_spec fs cfg"
  unfolding linear_score_def linear_score_spec_def Let_def
  by (simp add: sigmoid_py_eq linear_loop_sum clamp_eq dict_get_def mult.commute add.commute
      split: option.splits)

text \<open>
  C4. The scorer returns \<open>round (100 * sigmoid (intercept + scale * (bias + \<Sum> w k * f k)))\<close>
  clamped to \<open>[0, 100]\<close>, a feature without a weight counting with weight 0: dropping
  such features changes nothing, and with no weights at all the score is 50.
\<close>

theorem C4_linear_score:
  "linear_score fs cfg = linear_score_spec fs cfg
   \<and> linear_score (filter (\<lambda>kv. weights cfg (fst kv) \<noteq> None) fs) cfg = linear_score fs cfg
   \<and> 0 \<le> linear_score fs cfg \<and> linear_score fs cfg \<le> 100
   \<and> linear_score [(''new_device'', 1), (''consecutive_fails'', 4)]
        \<lparr>weights = Map.empty, scale = 1, intercept = 0, step_up_threshold = 60,
         hard_deny_threshold = 90\<rparr> = 50"
proof (intro conjI)
  show "linear_score fs cfg = linear_score_spec fs cfg" by (rule linear_score_eq_spec)
  show "linear_score (filter (\<lambda>kv. weights cfg (fst kv) \<noteq> None) fs) cfg = linear_score fs cfg"
    by (simp only: linear_score_eq_spec linear_score_spec_def weighted_sum_filter)
  show "0 \<le> linear_score fs cfg" by (simp add: linear_score_def Let_def)
  show "linear_score fs cfg \<le> 100" by (simp add: linear_score_def Let_def)
  show "linear_score [(''new_device'', 1), (''consecutive_fails'', 4)]
        \<lparr>weights = Map.empty, scale = 1, intercept = 0, step_up_threshold = 60,
         hard_deny_threshold = 90\<rparr> = 50"
    by (simp add: linear_score_def dict_get_def sigmoid_py_def py_round_def Let_def)
qed

subsection \<open>The feature extractor\<close>

text \<open>
  C5, as amended. \<open>new_city\<close> and \<open>rare_city\<close> are computed only when the address is not
  private, the city is resolved and the history without the candidate holds a successful
  attempt: then \<open>new_city\<close> is 1 iff the city's count is 0 and \<open>rare_city\<close> is 1 iff the
  count is in \<open>(0, 2]\<close>; otherwise both are 0. \<open>odd_hour\<close> and \<open>uncommon_hour\<close> are
  computed only when there are at least three prior successes: then \<open>odd_hour\<close> is 1 iff
  the count of the candidate's hour is 0 and \<open>uncommon_hour\<close> is 1 iff it is in \<open>(0, 2]\<close>;
  otherwise both are 0. A degraded location zeroes the two city features only.
\<close>

theorem C5_city_hour_features:
  "feature (login_features a) ''new_city'' =
      Some (if city_eligible a \<and> city_count a = 0 then 1 else 0)
   \<and> feature (login_features a) ''rare_city'' =
      Some (if city_eligible a \<and> 0 < city_count a \<and> city_count a \<le> 2 then 1 else 0)
   \<and> feature (login_features a) ''odd_hour'' =
      Some (if hour_eligible a \<and> hour_count_of a = 0 then 1 else 0)
   \<and> feature (login_features a) ''uncommon_hour'' =
      Some (if hour_eligible a \<and> 0 < hour_count_of a \<and> hour_count_of a \<le> 2 then 1 else 0)"
  by (simp add: feature_def login_features_def Let_def city_eligible_def hour_eligible_def
      city_count_def hour_count_of_def dict_get_def prior_success_count_def)

text \<open>
  The claim as stated fails: with a private address and an unresolved city, three prior
  successes at hour 0 and a candidate at hour 5, \<open>odd_hour\<close> is 1.
\<close>

theorem C5_geo_degraded_counterexample:
  "is_private_ip \<lparr>recent_rows =
        [\<lparr>ts = 0, ip = ''10.0.0.5'', device_hash = None, success = True\<rparr>,
         \<lparr>ts = 60000000, ip = ''10.0.0.5'', device_hash = None, success = True\<rparr>,
         \<lparr>ts = 120000000, ip = ''10.0.0.5'', device_hash = None, success = True\<rparr>,
         \<lparr>ts = 18000000000, ip = ''10.0.0.5'', device_hash = None, success = True\<rparr>],
      login_cities = [''Unknown'' \<mapsto> 3], login_hours_hist = [''0'' \<mapsto> 3],
      device_trust = Map.empty, ip_city = ''Unknown'', is_private_ip = True, dev_hash = None,
      known_device = True, ip_changed = False, consecutive_fails = 0, now = 18000000000,
      last_success_ts = Some 120000000, speed_kmh = None\<rparr>
   \<and> feature (login_features \<lparr>recent_rows =
        [\<lparr>ts = 0, ip = ''10.0.0.5'', device_hash = None, success = True\<rparr>,
         \<lparr>ts = 60000000, ip = ''10.0.0.5'', device_hash = None, success = True\<rparr>,
         \<lparr>ts = 120000000, ip = ''10.0.0.5'', device_hash = None, success = True\<rparr>,
         \<lparr>ts = 18000000000, ip = ''10.0.0.5'', device_hash = None, success = True\<rparr>],
      login_cities = [''Unknown'' \<mapsto> 3], login_hours_hist = [''0'' \<mapsto> 3],
      device_trust = Map.empty, ip_city = ''Unknown'', is_private_ip = True, dev_hash = None,
      known_device = True, ip_changed = False, consecutive_fails = 0, now = 18000000000,
      last_success_ts = Some 120000000, speed_kmh = None\<rparr>) ''odd_hour'' = Some 1"
  by (simp add: feature_def login_features_def Let_def dict_get_def hour_of_def str_nat.simps
      digit_char_def)

subsection \<open>Transaction statistics\<close>

lemma learn_tx_cat:
  "tx_category_stats (learn_tx intel x c m) c' =
     (if c' = c then Some (ewma_step (dict_get (tx_category_stats intel) c zero_stats) x)
      else tx_category_stats intel c')"
  by (simp add: learn_tx_def ewma_step_def Let_def)

lemma learn_all_cat:
  "tx_category_stats (learn_all intel txs) c =
     (if amounts_of c txs = [] then tx_category_stats intel c
      else Some (foldl ewma_step (dict_get (tx_category_stats intel) c zero_stats)
                   (amounts_of c txs)))"
proof (induction txs arbitrary: intel)
  case Nil
  then show ?case by (simp add: amounts_of_def)
next
  case (Cons t txs)
  obtain x c' m where t: "t = (x, c', m)" by (cases t)
  show ?case
    unfolding t by (simp add: Cons.IH learn_tx_cat amounts_of_def dict_get_def)
qed

text \<open>
  C10, as amended. An update of a category that has been seen before (\<open>n \<noteq> 0\<close>) has the
  EWMA form \<open>median' = (1 - \<alpha>) * median + \<alpha> * amount\<close> with \<open>\<alpha> = 0.1\<close>, and the same form
  for the MAD against the updated median; the first update of a category sets the median
  to the amount and the MAD to 0. The statistics of a category after a replay from a
  zeroed profile are a function of the sequence of its amounts alone, so two replays of
  the same amounts give the same statistics.
\<close>

theorem C10_ewma_update:
  "(st_n (dict_get (tx_category_stats intel) c zero_stats) \<noteq> 0 \<longrightarrow>
      (\<exists>s'. tx_category_stats (learn_tx intel x c m) c = Some s'
         \<and> st_median s' =
             (1 - 1 / 10) * st_median (dict_get (tx_category_stats intel) c zero_stats)
             + (1 / 10) * x
         \<and> st_mad s' =
             (1 - 1 / 10) * st_mad (dict_get (tx_category_stats intel) c zero_stats)
             + (1 / 10) * \<bar>x - st_median s'\<bar>))
   \<and> (st_n (dict_get (tx_category_stats intel) c zero_stats) = 0 \<longrightarrow>
      (\<exists>s'. tx_category_stats (learn_tx intel x c m) c = Some s'
         \<and> st_median s' = x \<and> st_mad s' = 0))
   \<and> (amounts_of c txs = amounts_of c txs' \<longrightarrow>
        tx_category_stats (learn_all zeroed_intel txs) c
          = tx_category_stats (learn_all zeroed_intel txs') c)
   \<and> tx_category_stats (learn_all zeroed_intel txs) c =
        (if amounts_of c txs = [] then None
         else Some (foldl ewma_step zero_stats (amounts_of c txs)))"
  by (simp add: learn_all_cat learn_tx_cat ewma_step_def zeroed_intel_def dict_get_def)

theorem C10_ewma_update_witness:
  "amounts_of ''FOOD'' [(20, ''FOOD'', None), (7, ''RENT'', None), (30, ''FOOD'', Some ''Cafe'')]
     = amounts_of ''FOOD'' [(20, ''FOOD'', Some ''Deli''), (30, ''FOOD'', None)]
   \<and> tx_category_stats (learn_all zeroed_intel
        [(20, ''FOOD'', None), (7, ''RENT'', None), (30, ''FOOD'', Some ''Cafe'')]) ''FOOD''
     = Some \<lparr>st_n = 2, st_median = 21, st_mad = 9 / 10\<rparr>
   \<and> tx_category_stats (learn_all zeroed_intel
        [(20, ''FOOD'', Some ''Deli''), (30, ''FOOD'', None)]) ''FOOD''
     = Some \<lparr>st_n = 2, st_median = 21, st_mad = 9 / 10\<rparr>
   \<and> st_n (dict_get (tx_category_stats zeroed_intel) ''FOOD'' zero_stats) = 0
   \<and> st_n (dict_get (tx_category_stats (learn_tx zeroed_intel 20 ''FOOD'' None)) ''FOOD''
        zero_stats) \<noteq> 0"
  using C10_ewma_update [of zeroed_intel "''FOOD''" 20 None
      "[(20, ''FOOD'', None), (7, ''RENT'', None), (30, ''FOOD'', Some ''Cafe'')]"
      "[(20, ''FOOD'', Some ''Deli''), (30, ''FOOD'', None)]"]
    C10_ewma_update [of "learn_tx zeroed_intel 20 ''FOOD'' None" "''FOOD''" 30 "Some ''Cafe''"
      "[(20, ''FOOD'', None), (7, ''RENT'', None), (30, ''FOOD'', Some ''Cafe'')]"
      "[(20, ''FOOD'', Some ''Deli''), (30, ''FOOD'', None)]"]
  by (simp add: amounts_of_def ewma_step_def zero_stats_def zeroed_intel_def dict_get_def
      learn_tx_def Let_def)

text \<open>
  The claim as stated fails on the first update: from a zeroed profile an amount of 100
  gives the median 100, not \<open>0.9 * 0 + 0.1 * 100\<close>.
\<close>

theorem C10_first_update_counterexample:
  "st_median (the (tx_category_stats (learn_tx zeroed_intel 100 ''FOOD'' None) ''FOOD'')) = 100
   \<and> (1 - 1 / 10) * st_median zero_stats + (1 / 10) * 100 \<noteq> (100 :: real)"
  by (simp add: learn_tx_def zeroed_intel_def zero_stats_def dict_get_def Let_def)

subsection \<open>Configuration updates\<close>

text \<open>
  What a call that raises leaves behind: the fields before the one that raised are
  applied, that field and the later ones are not.
\<close>

lemma set_weights_restrict:
  "set_weights pf (u |` S) C = (if ''weights'' \<in> S then set_weights pf u C else Inr C)"
  by (simp add: set_weights_def restrict_map_def)

lemma set_scale_restrict:
  "set_scale pf (u |` S) C = (if ''scale'' \<in> S then set_scale pf u C else Inr C)"
  by (simp add: set_scale_def restrict_map_def)

lemma set_intercept_restrict:
  "set_intercept pf (u |` S) C = (if ''intercept'' \<in> S then set_intercept pf u C else Inr C)"
  by (simp add: set_intercept_def restrict_map_def)

lemma set_step_up_restrict:
  "set_step_up pi' (u |` S) C =
     (if ''step_up_threshold'' \<in> S then set_step_up pi' u C else Inr C)"
  by (simp add: set_step_up_def restrict_map_def)

lemma set_hard_deny_restrict:
  "set_hard_deny pi' (u |` S) C =
     (if ''hard_deny_threshold'' \<in> S then set_hard_deny pi' u C else Inr C)"
  by (simp add: set_hard_deny_def restrict_map_def)

lemma set_empty:
  "set_weights pf Map.empty C = Inr C" "set_scale pf Map.empty C = Inr C"
  "set_intercept pf Map.empty C = Inr C" "set_step_up pi' Map.empty C = Inr C"
  "set_hard_deny pi' Map.empty C = Inr C"
  by (simp_all add: set_weights_def set_scale_def set_intercept_def set_step_up_def
      set_hard_deny_def)

lemmas set_restrict = set_weights_restrict set_scale_restrict set_intercept_restrict
  set_step_up_restrict set_hard_deny_restrict set_empty

lemma take_fields:
  "take 0 config_fields = []"
  "take (Suc 0) config_fields = [''weights'']"
  "take (Suc (Suc 0)) config_fields = [''weights'', ''scale'']"
  "take (Suc (Suc (Suc 0))) config_fields = [''weights'', ''scale'', ''intercept'']"
  "take (Suc (Suc (Suc (Suc 0)))) config_fields =
     [''weights'', ''scale'', ''intercept'', ''step_up_threshold'']"
  "take (Suc (Suc (Suc (Suc (Suc 0))))) config_fields = config_fields"
  by (simp_all add: config_fields_def)

lemma set_frames:
  "set_weights pf u C = Inr C1 \<Longrightarrow> hard_deny_threshold C1 = hard_deny_threshold C"
  "set_scale pf u C = Inr C1 \<Longrightarrow> hard_deny_threshold C1 = hard_deny_threshold C"
  "set_intercept pf u C = Inr C1 \<Longrightarrow> hard_deny_threshold C1 = hard_deny_threshold C"
  "set_step_up pi' u C = Inr C1 \<Longrightarrow> hard_deny_threshold C1 = hard_deny_threshold C"
  by (auto simp: set_weights_def set_scale_def set_intercept_def set_step_up_def
      split: option.splits pyval.splits sum.splits)

lemma hard_deny_kept:
  assumes "update_config pf pi' u C = (Some e, C')"
  shows "hard_deny_threshold C' = hard_deny_threshold C"
  using assms
  by (auto simp: update_config_def and_then_def split: sum.splits) (metis set_frames)+

lemma update_config_stops:
  assumes "update_config pf pi' u C = (Some e, C')"
  shows "\<exists>k<5. update_config pf pi' (u |` set (take k config_fields)) C = (None, C')
               \<and> update_config pf pi' (u |` set (take (Suc k) config_fields)) C = (Some e, C')"
proof (cases "set_weights pf u C")
  case (Inl e0)
  with assms have "e = e0" "C' = C" by (auto simp: update_config_def and_then_def)
  with Inl have "update_config pf pi' (u |` set (take 0 config_fields)) C = (None, C')
      \<and> update_config pf pi' (u |` set (take (Suc 0) config_fields)) C = (Some e, C')"
    by (simp add: take_fields update_config_def and_then_def set_restrict)
  then show ?thesis by (intro exI[of _ 0]) simp
next
  case w: (Inr C1)
  show ?thesis
  proof (cases "set_scale pf u C1")
    case (Inl e0)
    with assms w have "e = e0" "C' = C1" by (auto simp: update_config_def and_then_def)
    with Inl w have "update_config pf pi' (u |` set (take (Suc 0) config_fields)) C = (None, C')
        \<and> update_config pf pi' (u |` set (take (Suc (Suc 0)) config_fields)) C = (Some e, C')"
      by (simp add: take_fields update_config_def and_then_def set_restrict)
    then show ?thesis by (intro exI[of _ "Suc 0"]) simp
  next
    case s: (Inr C2)
    show ?thesis
    proof (cases "set_intercept pf u C2")
      case (Inl e0)
      with assms w s have "e = e0" "C' = C2" by (auto simp: update_config_def and_then_def)
      with Inl w s have
        "update_config pf pi' (u |` set (take (Suc (Suc 0)) config_fields)) C = (None, C')
          \<and> update_config pf pi' (u |` set (take (Suc (Suc (Suc 0))) config_fields)) C
              = (Some e, C')"
        by (simp add: take_fields update_config_def and_then_def set_restrict)
      then show ?thesis by (intro exI[of _ "Suc (Suc 0)"]) simp
    next
      case i: (Inr C3)
      show ?thesis
      proof (cases "set_step_up pi' u C3")
        case (Inl e0)
        with assms w s i have "e = e0" "C' = C3" by (auto simp: update_config_def and_then_def)
        with Inl w s i have
          "update_config pf pi' (u |` set (take (Suc (Suc (Suc 0))) config_fields)) C = (None, C')
            \<and> update_config pf pi' (u |` set (take (Suc (Suc (Suc (Suc 0)))) config_fields)) C
                = (Some e, C')"
          by (simp add: take_fields update_config_def and_then_def set_restrict)
        then show ?thesis by (intro exI[of _ "Suc (Suc (Suc 0))"]) simp
      next
        case t: (Inr C4)
        show ?thesis
        proof (cases "set_hard_deny pi' u C4")
          case (Inl e0)
          with assms w s i t have "e = e0" "C' = C4"
            by (auto simp: update_config_def and_then_def)
          with Inl w s i t have
            "update_config pf pi' (u |` set (take (Suc (Suc (Suc (Suc 0)))) config_fields)) C
                = (None, C')
              \<and> update_config pf pi'
                  (u |` set (take (Suc (Suc (Suc (Suc (Suc 0))))) config_fields)) C
                = (Some e, C')"
            by (simp add: take_fields config_fields_def update_config_def and_then_def
                set_restrict)
          then show ?thesis by (intro exI[of _ "Suc (Suc (Suc (Suc 0)))"]) simp
        next
          case (Inr C5)
          with assms w s i t show ?thesis by (simp add: update_config_def and_then_def)
        qed
      qed
    qed
  qed
qed

lemma py_float_overflow:
  "py_float pf (PyInt (2 ^ 1024)) = Inl OverflowError"
  "py_float pf (PyInt (2 ^ 1024 - 2 ^ 970 - 1)) = Inr (of_int (2 ^ 1024 - 2 ^ 970 - 1))"
  by simp_all

text \<open>
  C8 fails on the code. The body \<^verbatim>\<open>{"weights": {"bias": 2.0}, "scale": null}\<close> passes
  the schema \<^verbatim>\<open>RiskConfigIn\<close> (an explicit null is a set field); \<^verbatim>\<open>float(None)\<close>
  raises \<^verbatim>\<open>TypeError\<close> when the bias weight has already changed from \<open>-1.5\<close> to \<open>2\<close>,
  in \<^verbatim>\<open>update_config\<close> and through \<^verbatim>\<open>put_risk_config\<close>. The weights statement skips a
  value that is not a dictionary, null included, where the scalar statements convert
  whatever they get. With \<^verbatim>\<open>{"step_up_threshold": 10, "hard_deny_threshold": null}\<close>
  the configuration is left with the step-up threshold 10 while the module global the
  login path reads stays 60.
\<close>

theorem C8_partial_update:
  "fst (update_config Map.empty Map.empty
        [''weights'' \<mapsto> PyDict [(''bias'', PyFloat 2)], ''scale'' \<mapsto> PyNone] CONFIG)
     = Some TypeError
   \<and> weights (snd (update_config Map.empty Map.empty
        [''weights'' \<mapsto> PyDict [(''bias'', PyFloat 2)], ''scale'' \<mapsto> PyNone] CONFIG)) ''bias''
     = Some 2
   \<and> weights CONFIG ''bias'' = Some (- 15 / 10)
   \<and> fst (put_risk_config Map.empty Map.empty
        [''weights'' \<mapsto> PyDict [(''bias'', PyFloat 2)], ''scale'' \<mapsto> PyNone]
        \<lparr>g_config = CONFIG, g_step_up = 60, g_hard_deny = 90\<rparr>)
     = Some TypeError
   \<and> weights (g_config (snd (put_risk_config Map.empty Map.empty
        [''weights'' \<mapsto> PyDict [(''bias'', PyFloat 2)], ''scale'' \<mapsto> PyNone]
        \<lparr>g_config = CONFIG, g_step_up = 60, g_hard_deny = 90\<rparr>))) ''bias''
     = Some 2
   \<and> update_config Map.empty Map.empty [''weights'' \<mapsto> PyNone] CONFIG = (None, CONFIG)
   \<and> update_config Map.empty Map.empty [''scale'' \<mapsto> PyNone] CONFIG = (Some TypeError, CONFIG)
   \<and> fst (put_risk_config Map.empty Map.empty
        [''step_up_threshold'' \<mapsto> PyInt 10, ''hard_deny_threshold'' \<mapsto> PyNone]
        \<lparr>g_config = CONFIG, g_step_up = 60, g_hard_deny = 90\<rparr>)
     = Some TypeError
   \<and> step_up_threshold (g_config (snd (put_risk_config Map.empty Map.empty
        [''step_up_threshold'' \<mapsto> PyInt 10, ''hard_deny_threshold'' \<mapsto> PyNone]
        \<lparr>g_config = CONFIG, g_step_up = 60, g_hard_deny = 90\<rparr>))) = 10
   \<and> g_step_up (snd (put_risk_config Map.empty Map.empty
        [''step_up_threshold'' \<mapsto> PyInt 10, ''hard_deny_threshold'' \<mapsto> PyNone]
        \<lparr>g_config = CONFIG, g_step_up = 60, g_hard_deny = 90\<rparr>)) = 60"
  by (simp add: put_risk_config_def update_config_def and_then_def set_weights_def
      set_scale_def set_intercept_def set_step_up_def set_hard_deny_def CONFIG_def)

subsection \<open>The anomaly facade\<close>

lemma try_iforest_returns:
  assumes sk: "sklearn_returns env \<or> int (length h) < if_min_train_rows (dc_iforest (ad_cfg det))"
  shows "\<exists>n s dt. try_iforest env det h r = Inr (''iforest'', n, s, dt)
           \<and> (0 < if_min_train_rows (dc_iforest (ad_cfg det)) \<longrightarrow>
                (n = 0 \<longrightarrow> s = 0 \<and> dt ''reason'' = Some (DStr ''model_not_trained''))
                \<and> (h = [] \<longrightarrow> n = 0))"
proof (cases "int (length h) < if_min_train_rows (dc_iforest (ad_cfg det))")
  case True
  then show ?thesis
    by (simp add: try_iforest_def if_train_def if_score_one_def)
next
  case False
  with sk have sk': "sklearn_returns env" by simp
  from sk' obtain sc md where
    fit: "sk_fit env (dc_iforest (ad_cfg det)) (featurize_rows h) = Inr (sc, md)"
    unfolding sklearn_returns_def by (metis surj_pair)
  from sk' obtain raw where dec: "sk_decision env sc md (featurize_rows [r]) = Inr raw"
    unfolding sklearn_returns_def by metis
  from False fit dec show ?thesis
    by (auto simp: try_iforest_def if_train_def if_score_one_def)
qed

lemma try_autoenc_count:
  assumes "try_autoenc env det h r = Inr (u, n, s, dt)"
    and "ae_min_train_rows (dc_autoenc (ad_cfg det)) \<le> int (length h)"
    and "0 < ae_min_train_rows (dc_autoenc (ad_cfg det))"
  shows "n \<noteq> 0"
  using assms
  by (auto simp: try_autoenc_def ae_train_def split: sum.splits if_splits prod.splits)

text \<open>
  What does hold: when the scikit-learn calls return, or the history is shorter than the
  forest's minimum, the facade returns, whatever torch does; with positive minimum
  training sizes a trained count of 0 comes with the score 0 and the reason
  \<open>model_not_trained\<close>, and the empty history gives the count 0.
\<close>

lemma facade_returns_if_forest_does:
  assumes sk: "sklearn_returns env
                 \<or> int (length hist) < if_min_train_rows (dc_iforest (ad_cfg det))"
  shows "\<exists>used score dt n.
           train_and_score env det hist newest force = Inr (used, score, dt, n)
           \<and> (0 < if_min_train_rows (dc_iforest (ad_cfg det))
                \<and> 0 < ae_min_train_rows (dc_autoenc (ad_cfg det)) \<longrightarrow>
                (n = 0 \<longrightarrow> score = 0 \<and> dt ''reason'' = Some (DStr ''model_not_trained''))
                \<and> (hist = [] \<longrightarrow> n = 0))"
proof -
  from try_iforest_returns[OF sk, of newest]
  obtain n s dt where
    ifr: "try_iforest env det hist newest = Inr (''iforest'', n, s, dt)"
    and ifp: "0 < if_min_train_rows (dc_iforest (ad_cfg det)) \<longrightarrow>
                (n = 0 \<longrightarrow> s = 0 \<and> dt ''reason'' = Some (DStr ''model_not_trained''))
                \<and> (hist = [] \<longrightarrow> n = 0)"
    by blast
  define chosen where
    "chosen = py_lower (str_or force (str_or (Some (dc_method (ad_cfg det))) ''auto''))"
  have tas: "train_and_score env det hist newest force =
      (if chosen = ''iforest'' then returned (try_iforest env det hist newest)
        else if chosen = ''autoenc'' then
          (case (case try_autoenc env det hist newest of
                   Inl e \<Rightarrow> Inl e
                 | Inr (used, n_train, s, dt) \<Rightarrow>
                     if n_train = 0 then returned (try_iforest env det hist newest)
                     else Inr (used, s, dt, n_train)) of
             Inr r \<Rightarrow> Inr r
           | Inl e \<Rightarrow> fallback_iforest env det hist newest e)
        else if TORCH_AVAILABLE env
                \<and> int (length hist) \<ge> ae_min_train_rows (dc_autoenc (ad_cfg det)) then
          (case returned (try_autoenc env det hist newest) of
             Inr r \<Rightarrow> Inr r
           | Inl e \<Rightarrow> fallback_iforest env det hist newest e)
        else returned (try_iforest env det hist newest))"
    by (simp add: train_and_score_def chosen_def Let_def)
  have ret: "returned (try_iforest env det hist newest) = Inr (''iforest'', s, dt, n)"
    by (simp add: ifr returned_def)
  have fb: "\<And>e. fallback_iforest env det hist newest e =
      Inr (''iforest'', s,
           [''fallback'' \<mapsto> DStr ''iforest'', ''reason'' \<mapsto> DStr (exc_str e)] ++ dt, n)"
    by (simp add: ifr fallback_iforest_def)
  have fbr: "\<And>e. dt ''reason'' = Some (DStr ''model_not_trained'') \<Longrightarrow>
      ([''fallback'' \<mapsto> DStr ''iforest'', ''reason'' \<mapsto> DStr (exc_str e)] ++ dt) ''reason''
        = Some (DStr ''model_not_trained'')"
    by (simp add: map_add_def)
  consider (a) "chosen = ''iforest''"
    | (b) "chosen \<noteq> ''iforest''" "chosen = ''autoenc''"
    | (c) "chosen \<noteq> ''iforest''" "chosen \<noteq> ''autoenc''"
          "TORCH_AVAILABLE env
             \<and> int (length hist) \<ge> ae_min_train_rows (dc_autoenc (ad_cfg det))"
    | (d) "chosen \<noteq> ''iforest''" "chosen \<noteq> ''autoenc''"
          "\<not> (TORCH_AVAILABLE env
                \<and> int (length hist) \<ge> ae_min_train_rows (dc_autoenc (ad_cfg det)))"
    by blast
  then show ?thesis
  proof cases
    case a
    then show ?thesis using ret ifp by (simp add: tas)
  next
    case d
    then have "train_and_score env det hist newest force
        = returned (try_iforest env det hist newest)"
      unfolding tas by (simp only: if_False)
    then show ?thesis using ret ifp by simp
  next
    case b
    show ?thesis
    proof (cases "try_autoenc env det hist newest")
      case (Inl e)
      then show ?thesis using b fb[of e] fbr[of e] ifp by (simp add: tas)
    next
      case (Inr q)
      obtain u n' s' dt' where q: "q = (u, n', s', dt')" by (cases q) auto
      show ?thesis
      proof (cases "n' = 0")
        case True
        then show ?thesis using b Inr q ret ifp by (simp add: tas)
      next
        case False
        have "hist \<noteq> []" using Inr q False
          by (auto simp: try_autoenc_def ae_train_def ae_score_one_def
              split: sum.splits if_splits prod.splits option.splits)
        then show ?thesis using b Inr q False by (simp add: tas)
      qed
    qed
  next
    case c
    show ?thesis
    proof (cases "try_autoenc env det hist newest")
      case (Inl e)
      then show ?thesis using c fb[of e] fbr[of e] ifp by (simp add: tas returned_def)
    next
      case (Inr q)
      obtain u n' s' dt' where q: "q = (u, n', s', dt')" by (cases q) auto
      show ?thesis
      proof (cases "0 < ae_min_train_rows (dc_autoenc (ad_cfg det))")
        case True
        have nz: "n' \<noteq> 0" using try_autoenc_count[OF Inr[unfolded q] _ True] c by simp
        have "hist \<noteq> []" using c True by auto
        then show ?thesis using c Inr q nz by (simp add: tas returned_def)
      next
        case False
        then show ?thesis using c Inr q by (simp add: tas returned_def)
      qed
    qed
  qed
qed

lemmas facade_defs = train_and_score_def try_autoenc_def try_iforest_def ae_train_def
  ae_score_one_def if_train_def if_score_one_def ensure_torch_def returned_def
  fallback_iforest_def str_or_def demo_backends_def AnomalyDetector_init_def
  DetectorConfig_default_def IFConfig_default_def AEConfig_default_def py_lower_def
  lower_char_def Let_def

text \<open>
  C6 fails on the code. The two calls of \<^verbatim>\<open>_try_autoenc\<close> stand in a
  \<^verbatim>\<open>try\<close>, the calls of \<^verbatim>\<open>_try_iforest\<close> do not: what scikit-learn raises in the
  forest leaves \<^verbatim>\<open>train_and_score\<close>. With a contamination of 0.9 in the forest's
  configuration, torch installed and 10 rows of history, the fit raises and the facade
  raises with it, whether the method is left to the configuration, forced to the forest
  or forced to the autoencoder (which trains on 0 rows and hands over to the forest; the
  handler then calls the forest once more).
\<close>

theorem C6_forest_error_escapes:
  "train_and_score strict_backends
      (AnomalyDetector_init
         (DetectorConfig_default\<lparr>dc_iforest := IFConfig_default\<lparr>if_contamination := 9 / 10\<rparr>\<rparr>))
      (replicate 10 food_row) food_row None
     = Inl (BackendError ''InvalidParameterError'')
   \<and> train_and_score strict_backends
      (AnomalyDetector_init
         (DetectorConfig_default\<lparr>dc_iforest := IFConfig_default\<lparr>if_contamination := 9 / 10\<rparr>\<rparr>))
      (replicate 10 food_row) food_row (Some ''iforest'')
     = Inl (BackendError ''InvalidParameterError'')
   \<and> train_and_score strict_backends
      (AnomalyDetector_init
         (DetectorConfig_default\<lparr>dc_iforest := IFConfig_default\<lparr>if_contamination := 9 / 10\<rparr>\<rparr>))
      (replicate 10 food_row) food_row (Some ''autoenc'')
     = Inl (BackendError ''InvalidParameterError'')"
  by (simp add: facade_defs strict_backends_def)

text \<open>
  C7 fails on the code. Forced to the autoencoder with torch installed and 15 rows of
  history (fewer than its 40), the facade falls back to the forest and returns the
  forest's details alone: no \<open>fallback\<close> key, no reason. Forced to the autoencoder
  without torch and with 5 rows, the handler's \<open>reason\<close> (the text of the exception) is
  overwritten by the forest's own \<open>model_not_trained\<close>.
\<close>

theorem C7_fallback_not_annotated:
  "train_and_score (demo_backends True) (AnomalyDetector_init DetectorConfig_default)
      (replicate 15 food_row) food_row (Some ''autoenc'')
     = Inr (''iforest'', 40, [''raw_score'' \<mapsto> DNum (1 / 10)], 15)
   \<and> train_and_score (demo_backends False) (AnomalyDetector_init DetectorConfig_default)
      (replicate 5 food_row) food_row (Some ''autoenc'')
     = Inr (''iforest'', 0,
            [''fallback'' \<mapsto> DStr ''iforest'', ''reason'' \<mapsto> DStr ''model_not_trained''], 0)"
  by (simp add: facade_defs)

end
